theory Spec2Isabelle
  imports Main "HOL-Library.Word"
begin
section \<open>Light-client service: discovery topic (package les)\<close>

type_synonym byte = "8 word"

text \<open>
  A Go \<^verbatim>\<open>panic\<close> is a value of the model: a function that may panic returns
  \<open>go_panic + 'a\<close>, with \<open>Inl\<close> for the panic.
\<close>

datatype go_panic = PanicNil

text \<open>
  \<^verbatim>\<open>common.Bytes2Hex\<close> (common/bytes.go, not among the sources) is
  \<^verbatim>\<open>hex.EncodeToString\<close> of the Go standard library: every byte \<open>v\<close> becomes the
  two characters \<^verbatim>\<open>hextable[v >> 4]\<close>, \<^verbatim>\<open>hextable[v & 0x0f]\<close>.
\<close>

definition hextable :: string where
  "hextable = ''0123456789abcdef''"

definition hex_byte :: "byte \<Rightarrow> string" where
  "hex_byte v = [hextable ! (unat v div 16), hextable ! (unat v mod 16)]"

definition Bytes2Hex :: "byte list \<Rightarrow> string" where
  "Bytes2Hex d = concat (map hex_byte d)"

text \<open>
  \<^verbatim>\<open>lesTopic\<close> (les/backend.go). The protocol version constants \<^verbatim>\<open>lpv1\<close> and
  \<^verbatim>\<open>lpv2\<close> are declared in les/protocol.go, which is not among the sources; they are
  parameters here. \<^verbatim>\<open>common.Hash\<close> is \<^verbatim>\<open>[32]byte\<close>: a genesis hash is a byte list
  of length 32, of which \<^verbatim>\<open>genesisHash.Bytes()[0:8]\<close> takes the first eight.
\<close>

definition lesTopic :: "nat \<Rightarrow> nat \<Rightarrow> byte list \<Rightarrow> nat \<Rightarrow> go_panic + string" where
  "lesTopic lpv1 lpv2 genesisHash protocolVersion =
     (if protocolVersion = lpv1 then
        Inr (''LES'' @ ''@'' @ Bytes2Hex (take 8 genesisHash))
      else if protocolVersion = lpv2 then
        Inr (''LES2'' @ ''@'' @ Bytes2Hex (take 8 genesisHash))
      else Inl PanicNil)"


section \<open>Metered message streams (packages gda and les, metrics.go)\<close>

text \<open>
  \<^verbatim>\<open>p2p.Msg\<close> (p2p/message.go, not among the sources) carries a \<^verbatim>\<open>uint64\<close> code and a
  \<^verbatim>\<open>uint32\<close> size besides its payload; only these two are read by the wrappers.
\<close>

record Msg =
  Code :: "64 word"
  Size :: "32 word"
  Payload :: "byte list"

datatype error = Error string

text \<open>
  \<^verbatim>\<open>p2p.MsgReadWriter\<close> is an interface: its two methods are fields of the record, and the
  state of the connection behind it (\<open>'s\<close>) is passed explicitly. An \<^verbatim>\<open>error\<close> result of
  \<^verbatim>\<open>nil\<close> is \<open>None\<close>.
\<close>

record 's MsgReadWriter =
  ReadMsg :: "'s \<Rightarrow> (Msg \<times> error option) \<times> 's"
  WriteMsg :: "Msg \<Rightarrow> 's \<Rightarrow> error option \<times> 's"

record 's meteredMsgReadWriter =
  MsgReadWriter :: "'s MsgReadWriter"
  version :: int

text \<open>
  The registered meters. A meter is named by its package, its message kind, its direction
  and what it measures, as in \<^verbatim>\<open>"gda/req/headers/in/packets"\<close>; the Go variables are
  abbreviations for these names. The metrics sink is the list of the \<^verbatim>\<open>Mark\<close> calls made,
  oldest first, each with its meter and its \<^verbatim>\<open>int64\<close> argument.
\<close>

datatype package = Gda | Les
datatype kind = PropTxn | PropHash | PropBlock | ReqHeader | ReqBody | ReqState | ReqReceipt | Misc
datatype direction = In | Out
datatype quantity = Packets | Traffic
datatype meter = Meter package kind direction quantity

type_synonym sink = "(meter \<times> int) list"

definition Mark :: "meter \<Rightarrow> int \<Rightarrow> sink \<Rightarrow> sink" where
  "Mark m n snk = snk @ [(m, n)]"

abbreviation "propTxnInPacketsMeter \<equiv> Meter Gda PropTxn In Packets"
abbreviation "propTxnInTrafficMeter \<equiv> Meter Gda PropTxn In Traffic"
abbreviation "propTxnOutPacketsMeter \<equiv> Meter Gda PropTxn Out Packets"
abbreviation "propTxnOutTrafficMeter \<equiv> Meter Gda PropTxn Out Traffic"
abbreviation "propHashInPacketsMeter \<equiv> Meter Gda PropHash In Packets"
abbreviation "propHashInTrafficMeter \<equiv> Meter Gda PropHash In Traffic"
abbreviation "propHashOutPacketsMeter \<equiv> Meter Gda PropHash Out Packets"
abbreviation "propHashOutTrafficMeter \<equiv> Meter Gda PropHash Out Traffic"
abbreviation "propBlockInPacketsMeter \<equiv> Meter Gda PropBlock In Packets"
abbreviation "propBlockInTrafficMeter \<equiv> Meter Gda PropBlock In Traffic"
abbreviation "propBlockOutPacketsMeter \<equiv> Meter Gda PropBlock Out Packets"
abbreviation "propBlockOutTrafficMeter \<equiv> Meter Gda PropBlock Out Traffic"
abbreviation "reqHeaderInPacketsMeter \<equiv> Meter Gda ReqHeader In Packets"
abbreviation "reqHeaderInTrafficMeter \<equiv> Meter Gda ReqHeader In Traffic"
abbreviation "reqHeaderOutPacketsMeter \<equiv> Meter Gda ReqHeader Out Packets"
abbreviation "reqHeaderOutTrafficMeter \<equiv> Meter Gda ReqHeader Out Traffic"
abbreviation "reqBodyInPacketsMeter \<equiv> Meter Gda ReqBody In Packets"
abbreviation "reqBodyInTrafficMeter \<equiv> Meter Gda ReqBody In Traffic"
abbreviation "reqBodyOutPacketsMeter \<equiv> Meter Gda ReqBody Out Packets"
abbreviation "reqBodyOutTrafficMeter \<equiv> Meter Gda ReqBody Out Traffic"
abbreviation "reqStateInPacketsMeter \<equiv> Meter Gda ReqState In Packets"
abbreviation "reqStateInTrafficMeter \<equiv> Meter Gda ReqState In Traffic"
abbreviation "reqStateOutPacketsMeter \<equiv> Meter Gda ReqState Out Packets"
abbreviation "reqStateOutTrafficMeter \<equiv> Meter Gda ReqState Out Traffic"
abbreviation "reqReceiptInPacketsMeter \<equiv> Meter Gda ReqReceipt In Packets"
abbreviation "reqReceiptInTrafficMeter \<equiv> Meter Gda ReqReceipt In Traffic"
abbreviation "reqReceiptOutPacketsMeter \<equiv> Meter Gda ReqReceipt Out Packets"
abbreviation "reqReceiptOutTrafficMeter \<equiv> Meter Gda ReqReceipt Out Traffic"
abbreviation "miscInPacketsMeter \<equiv> Meter Gda Misc In Packets"
abbreviation "miscInTrafficMeter \<equiv> Meter Gda Misc In Traffic"
abbreviation "miscOutPacketsMeter \<equiv> Meter Gda Misc Out Packets"
abbreviation "miscOutTrafficMeter \<equiv> Meter Gda Misc Out Traffic"

text \<open>
  Package les registers four meters only (\<^verbatim>\<open>"les/misc/in/packets"\<close> and its three
  siblings); the per-kind meters are commented out in its source.
\<close>

abbreviation "les_miscInPacketsMeter \<equiv> Meter Les Misc In Packets"
abbreviation "les_miscInTrafficMeter \<equiv> Meter Les Misc In Traffic"
abbreviation "les_miscOutPacketsMeter \<equiv> Meter Les Misc Out Packets"
abbreviation "les_miscOutTrafficMeter \<equiv> Meter Les Misc Out Traffic"

text \<open>
  The message codes and the version constant \<^verbatim>\<open>gda63\<close> are declared in gda/protocol.go,
  which is not among the sources: they are a parameter of the wrapper's methods.
\<close>

record protocol =
  gda63 :: int
  NewBlockHashesMsg :: "64 word"
  TxMsg :: "64 word"
  BlockHeadersMsg :: "64 word"
  BlockBodiesMsg :: "64 word"
  NewBlockMsg :: "64 word"
  NodeDataMsg :: "64 word"
  ReceiptsMsg :: "64 word"

text \<open>
  \<^verbatim>\<open>newMeteredMsgWriter\<close> returns the stream itself (\<open>Inl\<close>) when the metrics system is
  disabled, and the wrapper around it (\<open>Inr\<close>), of version 0, otherwise;
  \<^verbatim>\<open>metrics.Enabled\<close> is its first argument. \<^verbatim>\<open>Init\<close> sets the protocol version.
\<close>

definition newMeteredMsgWriter ::
  "bool \<Rightarrow> 's MsgReadWriter \<Rightarrow> 's MsgReadWriter + 's meteredMsgReadWriter" where
  "newMeteredMsgWriter Enabled rw =
     (if \<not> Enabled then Inl rw else Inr \<lparr>MsgReadWriter = rw, version = 0\<rparr>)"

definition Init :: "int \<Rightarrow> 's meteredMsgReadWriter \<Rightarrow> 's meteredMsgReadWriter" where
  "Init v rw = rw\<lparr>version := v\<rparr>"

text \<open>
  \<^verbatim>\<open>ReadMsg\<close> and \<^verbatim>\<open>WriteMsg\<close> of package gda. The \<^verbatim>\<open>switch\<close> takes the first case that
  holds. \<^verbatim>\<open>int64(msg.Size)\<close> is exact, the size being a \<^verbatim>\<open>uint32\<close>.
\<close>

definition gda_ReadMsg ::
  "protocol \<Rightarrow> 's meteredMsgReadWriter \<Rightarrow> 's \<times> sink \<Rightarrow> (Msg \<times> error option) \<times> ('s \<times> sink)" where
  "gda_ReadMsg P rw = (\<lambda>(s, snk).
     case ReadMsg (MsgReadWriter rw) s of ((msg, err), s') \<Rightarrow>
       if err \<noteq> None then ((msg, err), (s', snk))
       else
         let (packets, traffic) =
           (if Code msg = BlockHeadersMsg P then (reqHeaderInPacketsMeter, reqHeaderInTrafficMeter)
            else if Code msg = BlockBodiesMsg P then (reqBodyInPacketsMeter, reqBodyInTrafficMeter)
            else if version rw \<ge> gda63 P \<and> Code msg = NodeDataMsg P then
              (reqStateInPacketsMeter, reqStateInTrafficMeter)
            else if version rw \<ge> gda63 P \<and> Code msg = ReceiptsMsg P then
              (reqReceiptInPacketsMeter, reqReceiptInTrafficMeter)
            else if Code msg = NewBlockHashesMsg P then (propHashInPacketsMeter, propHashInTrafficMeter)
            else if Code msg = NewBlockMsg P then (propBlockInPacketsMeter, propBlockInTrafficMeter)
            else if Code msg = TxMsg P then (propTxnInPacketsMeter, propTxnInTrafficMeter)
            else (miscInPacketsMeter, miscInTrafficMeter))
         in ((msg, err), (s', Mark traffic (uint (Size msg)) (Mark packets 1 snk))))"

definition gda_WriteMsg ::
  "protocol \<Rightarrow> 's meteredMsgReadWriter \<Rightarrow> Msg \<Rightarrow> 's \<times> sink \<Rightarrow> error option \<times> ('s \<times> sink)" where
  "gda_WriteMsg P rw msg = (\<lambda>(s, snk).
     let (packets, traffic) =
       (if Code msg = BlockHeadersMsg P then (reqHeaderOutPacketsMeter, reqHeaderOutTrafficMeter)
        else if Code msg = BlockBodiesMsg P then (reqBodyOutPacketsMeter, reqBodyOutTrafficMeter)
        else if version rw \<ge> gda63 P \<and> Code msg = NodeDataMsg P then
          (reqStateOutPacketsMeter, reqStateOutTrafficMeter)
        else if version rw \<ge> gda63 P \<and> Code msg = ReceiptsMsg P then
          (reqReceiptOutPacketsMeter, reqReceiptOutTrafficMeter)
        else if Code msg = NewBlockHashesMsg P then (propHashOutPacketsMeter, propHashOutTrafficMeter)
        else if Code msg = NewBlockMsg P then (propBlockOutPacketsMeter, propBlockOutTrafficMeter)
        else if Code msg = TxMsg P then (propTxnOutPacketsMeter, propTxnOutTrafficMeter)
        else (miscOutPacketsMeter, miscOutTrafficMeter));
       snk' = Mark traffic (uint (Size msg)) (Mark packets 1 snk)
     in case WriteMsg (MsgReadWriter rw) msg s of (err, s') \<Rightarrow> (err, (s', snk')))"

text \<open>\<^verbatim>\<open>ReadMsg\<close> and \<^verbatim>\<open>WriteMsg\<close> of package les: no \<^verbatim>\<open>switch\<close>, the misc meters always.\<close>

definition les_ReadMsg ::
  "'s meteredMsgReadWriter \<Rightarrow> 's \<times> sink \<Rightarrow> (Msg \<times> error option) \<times> ('s \<times> sink)" where
  "les_ReadMsg rw = (\<lambda>(s, snk).
     case ReadMsg (MsgReadWriter rw) s of ((msg, err), s') \<Rightarrow>
       if err \<noteq> None then ((msg, err), (s', snk))
       else
         let (packets, traffic) = (les_miscInPacketsMeter, les_miscInTrafficMeter)
         in ((msg, err), (s', Mark traffic (uint (Size msg)) (Mark packets 1 snk))))"

definition les_WriteMsg ::
  "'s meteredMsgReadWriter \<Rightarrow> Msg \<Rightarrow> 's \<times> sink \<Rightarrow> error option \<times> ('s \<times> sink)" where
  "les_WriteMsg rw msg = (\<lambda>(s, snk).
     let (packets, traffic) = (les_miscOutPacketsMeter, les_miscOutTrafficMeter);
       snk' = Mark traffic (uint (Size msg)) (Mark packets 1 snk)
     in case WriteMsg (MsgReadWriter rw) msg s of (err, s') \<Rightarrow> (err, (s', snk')))"

text \<open>
  The kind of a message on a stream of a given version, as the accounting sees it: the
  classification against which the two \<^verbatim>\<open>switch\<close> statements are compared.
\<close>

definition msg_kind :: "protocol \<Rightarrow> int \<Rightarrow> 64 word \<Rightarrow> kind" where
  "msg_kind P v c =
     (if c = BlockHeadersMsg P then ReqHeader
      else if c = BlockBodiesMsg P then ReqBody
      else if gda63 P \<le> v \<and> c = NodeDataMsg P then ReqState
      else if gda63 P \<le> v \<and> c = ReceiptsMsg P then ReqReceipt
      else if c = NewBlockHashesMsg P then PropHash
      else if c = NewBlockMsg P then PropBlock
      else if c = TxMsg P then PropTxn
      else Misc)"

text \<open>
  One instance of the constants, with the values of the eth/62 and eth/63 wire protocol,
  and a stream that always delivers the same message; they serve as concrete inputs.
\<close>

definition eth_protocol :: protocol where
  "eth_protocol = \<lparr>gda63 = 63, NewBlockHashesMsg = 1, TxMsg = 2, BlockHeadersMsg = 4,
     BlockBodiesMsg = 6, NewBlockMsg = 7, NodeDataMsg = 14, ReceiptsMsg = 16\<rparr>"

definition const_stream :: "Msg \<Rightarrow> error option \<Rightarrow> nat MsgReadWriter" where
  "const_stream msg err =
     \<lparr>ReadMsg = (\<lambda>n. ((msg, err), Suc n)), WriteMsg = (\<lambda>m n. (err, Suc n))\<rparr>"

section \<open>Receipts (package types, receipt.go)\<close>

definition receipgdaatusFailedRLP :: "byte list" where
  "receipgdaatusFailedRLP = []"

definition receipgdaatusSuccessfulRLP :: "byte list" where
  "receipgdaatusSuccessfulRLP = [0x01]"

definition ReceipgdaatusFailed :: nat where
  "ReceipgdaatusFailed = 0"

definition ReceipgdaatusSuccessful :: nat where
  "ReceipgdaatusSuccessful = 1"

text \<open>
  The receipt. \<^verbatim>\<open>Status\<close> is a \<^verbatim>\<open>uint\<close>, \<^verbatim>\<open>Bloom\<close> a \<^verbatim>\<open>[256]byte\<close>; the type of a log
  (\<^verbatim>\<open>types.Log\<close>, not among the sources) is the parameter \<open>'l\<close>. A \<^verbatim>\<open>nil\<close> slice and an
  empty one are both \<open>[]\<close>: the code tells them apart nowhere (\<^verbatim>\<open>len\<close>, \<^verbatim>\<open>bytes.Equal\<close>).
\<close>

record 'l Receipt =
  Posgdaate :: "byte list"
  Status :: nat
  CumulativeGasUsed :: "64 word"
  Bloom :: "byte list"
  Logs :: "'l list"
  TxHash :: "byte list"
  ContractAddress :: "byte list"
  GasUsed :: "64 word"

text \<open>\<^verbatim>\<open>receiptRLP\<close>, the consensus encoding of a receipt.\<close>

record 'l receiptRLP =
  PosgdaateOrStatus :: "byte list"
  rlp_CumulativeGasUsed :: "64 word"
  rlp_Bloom :: "byte list"
  rlp_Logs :: "'l list"

datatype receipt_error = InvalidReceiptStatus "byte list" | RlpError string

text \<open>The zero value \<^verbatim>\<open>Receipt{}\<close>, into which a receipt is decoded.\<close>

definition zeroReceipt :: "'l Receipt" where
  "zeroReceipt = \<lparr>Posgdaate = [], Status = 0, CumulativeGasUsed = 0, Bloom = replicate 256 0,
     Logs = [], TxHash = replicate 32 0, ContractAddress = replicate 20 0, GasUsed = 0\<rparr>"

definition NewReceipt :: "byte list \<Rightarrow> bool \<Rightarrow> 64 word \<Rightarrow> 'l Receipt" where
  "NewReceipt root failed cumulativeGasUsed =
     (let r = zeroReceipt\<lparr>Posgdaate := root, CumulativeGasUsed := cumulativeGasUsed\<rparr>
      in if failed then r\<lparr>Status := ReceipgdaatusFailed\<rparr>
         else r\<lparr>Status := ReceipgdaatusSuccessful\<rparr>)"

text \<open>\<^verbatim>\<open>len(common.Hash{})\<close> is 32.\<close>

definition HashLength :: nat where
  "HashLength = 32"

definition segdaatus :: "'l Receipt \<Rightarrow> byte list \<Rightarrow> receipt_error + 'l Receipt" where
  "segdaatus r posgdaateOrStatus =
     (if posgdaateOrStatus = receipgdaatusSuccessfulRLP then
        Inr (r\<lparr>Status := ReceipgdaatusSuccessful\<rparr>)
      else if posgdaateOrStatus = receipgdaatusFailedRLP then
        Inr (r\<lparr>Status := ReceipgdaatusFailed\<rparr>)
      else if length posgdaateOrStatus = HashLength then
        Inr (r\<lparr>Posgdaate := posgdaateOrStatus\<rparr>)
      else Inl (InvalidReceiptStatus posgdaateOrStatus))"

definition statusEncoding :: "'l Receipt \<Rightarrow> byte list" where
  "statusEncoding r =
     (if length (Posgdaate r) = 0 then
        (if Status r = ReceipgdaatusFailed then receipgdaatusFailedRLP
         else receipgdaatusSuccessfulRLP)
      else Posgdaate r)"

text \<open>
  \<^verbatim>\<open>rlp.Encode\<close> and \<^verbatim>\<open>Stream.Decode\<close> belong to package rlp, which is not among the
  sources: the codec of \<^verbatim>\<open>receiptRLP\<close> is a parameter, with \<open>'w\<close> for what is written to
  the \<^verbatim>\<open>io.Writer\<close> and read back from the stream.
\<close>

record ('l, 'w) rlp_codec =
  rlp_Encode :: "'l receiptRLP \<Rightarrow> receipt_error + 'w"
  rlp_Decode :: "'w \<Rightarrow> receipt_error + 'l receiptRLP"

definition EncodeRLP :: "('l, 'w) rlp_codec \<Rightarrow> 'l Receipt \<Rightarrow> receipt_error + 'w" where
  "EncodeRLP codec r =
     rlp_Encode codec \<lparr>PosgdaateOrStatus = statusEncoding r,
       rlp_CumulativeGasUsed = CumulativeGasUsed r, rlp_Bloom = Bloom r, rlp_Logs = Logs r\<rparr>"

text \<open>
  \<^verbatim>\<open>DecodeRLP\<close> updates the receiver \<open>r\<close>; on an error the receiver is left as it was and
  the error is the result.
\<close>

definition DecodeRLP :: "('l, 'w) rlp_codec \<Rightarrow> 'l Receipt \<Rightarrow> 'w \<Rightarrow> receipt_error + 'l Receipt" where
  "DecodeRLP codec r s =
     (case rlp_Decode codec s of
        Inl err \<Rightarrow> Inl err
      | Inr dec \<Rightarrow>
          (case segdaatus r (PosgdaateOrStatus dec) of
             Inl err \<Rightarrow> Inl err
           | Inr r' \<Rightarrow>
               Inr (r'\<lparr>CumulativeGasUsed := rlp_CumulativeGasUsed dec, Bloom := rlp_Bloom dec,
                      Logs := rlp_Logs dec\<rparr>)))"

text \<open>
  A lossless codec to evaluate the two methods on concrete receipts: the written form
  is the \<^verbatim>\<open>receiptRLP\<close> value itself.
\<close>

definition plain_codec :: "('l, 'l receiptRLP) rlp_codec" where
  "plain_codec = \<lparr>rlp_Encode = Inr, rlp_Decode = Inr\<rparr>"

section \<open>The full-node constructor (package gda, backend.go)\<close>

text \<open>
  \<^verbatim>\<open>downloader.SyncMode\<close> is an \<^verbatim>\<open>int\<close>. Of the configuration, the fields that decide the
  control flow of \<^verbatim>\<open>New\<close> are kept.
\<close>

record Config =
  SyncMode :: int
  SkipBcVersionCheck :: bool
  NetworkId :: "64 word"

datatype new_error =
    ErrorNew string
  | Errorf string "int list"
  | Collaborator string

text \<open>
  The error returned by \<^verbatim>\<open>core.SetupGenesisBlock\<close>: a \<^verbatim>\<open>*params.ConfigCompatError\<close> (with
  the block to rewind to) or any other error.
\<close>

datatype genesis_error = ConfigCompatError "64 word" | OtherGenesisError new_error

text \<open>
  What \<^verbatim>\<open>New\<close> calls lies outside the sources (packages downloader, core, gdadb, miner,
  gasprice and the rest of package gda): the constant \<^verbatim>\<open>downloader.LightSync\<close>, the
  method \<^verbatim>\<open>SyncMode.IsValid\<close>, and the outcomes of the calls that can fail or that are
  branched on are the fields of an environment.
\<close>

record Env =
  LightSync :: int
  IsValid :: "int \<Rightarrow> bool"
  CreateDB :: "new_error option"
  SetupGenesisBlock :: "genesis_error option"
  GetBlockChainVersion :: int
  BlockChainVersion :: int
  NewBlockChain :: "new_error option"
  NewProtocolManager :: "new_error option"

text \<open>
  The calls \<^verbatim>\<open>New\<close> makes to open the database and to build the chain state and the
  services on it, in the order made.
\<close>

datatype call =
    Call_CreateDB
  | Call_upgradeDeduplicateData
  | Call_SetupGenesisBlock
  | Call_CreateConsensusEngine
  | Call_NewBloomIndexer
  | Call_GetBlockChainVersion
  | Call_WriteBlockChainVersion
  | Call_NewBlockChain
  | Call_SetHead "64 word"
  | Call_WriteChainConfig
  | Call_bloomIndexer_Start
  | Call_NewTxPool
  | Call_NewProtocolManager
  | Call_miner_New
  | Call_NewOracle

text \<open>The service \<^verbatim>\<open>New\<close> returns on success; \<^verbatim>\<open>nil\<close> with an error is \<open>Inl\<close>.\<close>

record gdachain =
  config :: Config
  networkId :: "64 word"

text \<open>
  \<^verbatim>\<open>New\<close>: the result and the calls made. The rewind after an incompatible configuration
  upgrade is the pair \<^verbatim>\<open>SetHead\<close>, \<^verbatim>\<open>WriteChainConfig\<close>.
\<close>

definition New :: "Env \<Rightarrow> Config \<Rightarrow> (new_error + gdachain) \<times> call list" where
  "New E cfg =
     (if SyncMode cfg = LightSync E then
        (Inl (ErrorNew (''can'' @ [CHR 0x27] @ ''t run gda.gdachain in light sync mode, use les.Lightgdachain'')), [])
      else if \<not> IsValid E (SyncMode cfg) then
        (Inl (Errorf ''invalid sync mode %d'' [SyncMode cfg]), [])
      else
        (case CreateDB E of
           Some err \<Rightarrow> (Inl err, [Call_CreateDB])
         | None \<Rightarrow>
             let t1 = [Call_CreateDB, Call_upgradeDeduplicateData, Call_SetupGenesisBlock] in
             (case SetupGenesisBlock E of
                Some (OtherGenesisError genesisErr) \<Rightarrow> (Inl genesisErr, t1)
              | genesisErr \<Rightarrow>
                  let t2 = t1 @ [Call_CreateConsensusEngine, Call_NewBloomIndexer] in
                  if \<not> SkipBcVersionCheck cfg \<and>
                     GetBlockChainVersion E \<noteq> BlockChainVersion E \<and> GetBlockChainVersion E \<noteq> 0
                  then
                    (Inl (Errorf (''Blockchain DB version mismatch (%d / %d). Run ggda upgradedb.'' @ [CHR 0x0A])
                            [GetBlockChainVersion E, BlockChainVersion E]),
                     t2 @ [Call_GetBlockChainVersion])
                  else
                    let t3 = t2 @ (if \<not> SkipBcVersionCheck cfg
                                   then [Call_GetBlockChainVersion, Call_WriteBlockChainVersion]
                                   else []) @ [Call_NewBlockChain] in
                    (case NewBlockChain E of
                       Some err \<Rightarrow> (Inl err, t3)
                     | None \<Rightarrow>
                         let t4 = t3 @ (case genesisErr of
                                          Some (ConfigCompatError rewindTo) \<Rightarrow>
                                            [Call_SetHead rewindTo, Call_WriteChainConfig]
                                        | _ \<Rightarrow> []) @
                                  [Call_bloomIndexer_Start, Call_NewTxPool, Call_NewProtocolManager] in
                         (case NewProtocolManager E of
                            Some err \<Rightarrow> (Inl err, t4)
                          | None \<Rightarrow>
                              (Inr \<lparr>config = cfg, networkId = NetworkId cfg\<rparr>,
                               t4 @ [Call_miner_New, Call_NewOracle]))))))"

text \<open>
  One environment to evaluate \<^verbatim>\<open>New\<close> on: the sync modes are numbered 0 (full), 1 (fast)
  and 2 (light), a mode is valid when it is one of the three, and no call fails.
\<close>

definition plain_env :: Env where
  "plain_env = \<lparr>LightSync = 2, IsValid = (\<lambda>m. 0 \<le> m \<and> m \<le> 2), CreateDB = None,
     SetupGenesisBlock = None, GetBlockChainVersion = 3, BlockChainVersion = 3,
     NewBlockChain = None, NewProtocolManager = None\<rparr>"

section \<open>The retrieval core: distributor, retrieve manager and deduplication\<close>

text \<open>
  The files of package les that hold the peer set, the request distributor, the retrieve
  manager and the on-demand retrieval facade (their constructors are called in
  les/backend.go) are not among the sources. Every definition of this section is
  therefore written from the design document, section by section.
\<close>

text \<open>Modelled from the spec: the error taxonomy of section 7; retrieve.go is missing.\<close>

datatype retrieval_error =
  NoEligiblePeer | AttemptTimeout | InvalidProof | Cancelled | RetriesExhausted

text \<open>
  Modelled from the spec: the Request of section 3 (correlation id, type tag, opaque
  payload, validation root); odr.go is missing.
\<close>

record Request =
  req_id :: nat
  req_type :: string
  req_payload :: "byte list"
  req_root :: "byte list"

text \<open>
  Modelled from the spec: the Peer of section 3, with the fields that selection reads
  (identity, serving capability flags, outstanding-request count, a quality measure);
  peer.go is missing.
\<close>

record Peer =
  peer_id :: nat
  capabilities :: "string list"
  outstanding :: nat
  quality :: nat

text \<open>
  Modelled from the spec: a reply is either the explicit "don't have it" or a payload
  (section 4.4); retrieve.go is missing.
\<close>

datatype reply = DontHave | Data "byte list"

text \<open>
  Modelled from the spec: the states of section 4.4. \<open>Sent\<close>, \<open>WaitingReply\<close> and
  \<open>Validating\<close> carry the peer of the attempt, \<open>Validating\<close> the reply under validation,
  \<open>Done\<close> the verified value, \<open>FailedRetryable\<close> the cause, \<open>FailedTerminal\<close> the
  error returned; retrieve.go is missing.
\<close>

datatype rstate =
    Pending
  | Sent nat
  | WaitingReply nat
  | Validating nat reply
  | Done "byte list"
  | FailedRetryable retrieval_error
  | FailedTerminal retrieval_error

text \<open>
  Modelled from the spec: what a Retrieval does to its collaborators (a dispatch to a
  peer, an attempt timer armed, an outcome reported to the server pool), logged oldest
  first; distributor.go and serverpool.go are missing.
\<close>

datatype effect = Dispatched nat | TimerArmed nat | PoolSuccess nat | PoolFailure nat

text \<open>
  Modelled from the spec: what a caller receives, "a verified result or a terminal
  error" (section 2); retrieve.go is missing.
\<close>

type_synonym outcome = "retrieval_error + byte list"

text \<open>
  Modelled from the spec: the Retrieval of section 3 (its request, the peers already
  tried, its state, the remaining retry budget, the waiting callers), with what was
  released to each caller and the log of effects; retrieve.go is missing.
\<close>

record Retrieval =
  request :: Request
  excluded :: "nat list"
  rstate :: rstate
  budget :: nat
  waiters :: "nat list"
  delivered :: "(nat \<times> outcome) list"
  effects :: "effect list"

text \<open>
  Modelled from the spec: the collaborators and tunables of a Retrieval: the black-box
  \<^verbatim>\<open>Verify(proof, expectedRoot)\<close> of section 1, the cap on outstanding requests per peer
  of section 4.3 and the retry budget of section 4.4; retrieve.go is missing.
\<close>

record RetrieveEnv =
  Verify :: "byte list \<Rightarrow> byte list \<Rightarrow> byte list option"
  max_outstanding :: nat
  retry_budget :: nat

text \<open>
  Modelled from the spec: what drives a Retrieval (section 4.4 and section 5): a selection
  attempt against the peers connected at that moment, the arming of the attempt timer, a
  reply, the timer's expiry, the verification step, the retry decision against the peers
  connected then, a cancellation, and a further caller attaching; retrieve.go is missing.
\<close>

datatype event =
    Select "Peer list"
  | Arm
  | Reply reply
  | Timeout
  | Validate
  | Retry "Peer list"
  | Cancel
  | Attach nat

text \<open>
  Modelled from the spec: "the peer advertises the required capability" (section 4.3);
  distributor.go is missing.
\<close>

definition capable :: "Request \<Rightarrow> Peer \<Rightarrow> bool" where
  "capable req p = (req_type req \<in> set (capabilities p))"

text \<open>
  Modelled from the spec: \<^verbatim>\<open>canSend(peer, request)\<close> of section 4.3, "true iff peer
  advertises the required capability, has spare outstanding-request headroom, and is not
  already excluded for this specific Retrieval"; distributor.go is missing.
\<close>

definition canSend :: "RetrieveEnv \<Rightarrow> Retrieval \<Rightarrow> Peer \<Rightarrow> bool" where
  "canSend E r p =
     (capable (request r) p \<and> outstanding p < max_outstanding E \<and>
      peer_id p \<notin> set (excluded r))"

text \<open>
  Modelled from the spec: \<^verbatim>\<open>select(predicate)\<close> of section 4.1, "returns the peer
  maximizing a quality measure among those satisfying a capability predicate, or none";
  peer.go is missing.
\<close>

fun select :: "(Peer \<Rightarrow> bool) \<Rightarrow> Peer list \<Rightarrow> Peer option" where
  "select pred [] = None"
| "select pred (p # ps) =
     (if pred p then
        (case select pred ps of
           None \<Rightarrow> Some p
         | Some q \<Rightarrow> if quality p < quality q then Some q else Some p)
      else select pred ps)"

text \<open>
  Modelled from the spec: "at least one non-excluded eligible peer could still exist"
  (section 4.4): a connected peer with the capability that this Retrieval has not
  excluded, busy or not; retrieve.go is missing.
\<close>

definition could_still_serve :: "Retrieval \<Rightarrow> Peer list \<Rightarrow> bool" where
  "could_still_serve r ps =
     list_ex (\<lambda>p. capable (request r) p \<and> peer_id p \<notin> set (excluded r)) ps"

text \<open>
  Modelled from the spec: Done and Failed-terminal are the terminal states
  (section 4.4); retrieve.go is missing.
\<close>

definition terminal :: "Retrieval \<Rightarrow> bool" where
  "terminal r = (case rstate r of Done v \<Rightarrow> True | FailedTerminal e \<Rightarrow> True | _ \<Rightarrow> False)"

text \<open>
  Modelled from the spec: an outcome is "released to all waiting callers"
  (section 4.4); retrieve.go is missing.
\<close>

definition release :: "outcome \<Rightarrow> Retrieval \<Rightarrow> Retrieval" where
  "release out r = r\<lparr>delivered := map (\<lambda>c. (c, out)) (waiters r)\<rparr>"

text \<open>
  Modelled from the spec: Failed-terminal "returns a typed error to every waiting
  caller" (section 4.4); retrieve.go is missing.
\<close>

definition fail_terminal :: "retrieval_error \<Rightarrow> Retrieval \<Rightarrow> Retrieval" where
  "fail_terminal e r = release (Inl e) (r\<lparr>rstate := FailedTerminal e\<rparr>)"

text \<open>
  Modelled from the spec: Failed-retryable, "Server Pool notified of failure for that
  peer; the peer is added to this Retrieval's exclusion set" (section 4.4); retrieve.go
  is missing.
\<close>

definition fail_retryable :: "retrieval_error \<Rightarrow> nat \<Rightarrow> Retrieval \<Rightarrow> Retrieval" where
  "fail_retryable e p r =
     r\<lparr>rstate := FailedRetryable e, excluded := excluded r @ [p],
       effects := effects r @ [PoolFailure p]\<rparr>"

text \<open>
  Modelled from the spec: the verification collaborator applied to a reply and the
  Request's trusted root; "don't have it" verifies to nothing (section 4.4); retrieve.go
  is missing.
\<close>

definition check_reply :: "RetrieveEnv \<Rightarrow> reply \<Rightarrow> Request \<Rightarrow> byte list option" where
  "check_reply E d req = (case d of DontHave \<Rightarrow> None | Data bs \<Rightarrow> Verify E bs (req_root req))"

text \<open>
  Modelled from the spec: the transitions of section 4.4, with the scenarios of section 8
  for the terminal errors. Pending: the distributor dispatches to the selected eligible
  peer; with no eligible peer the request stays queued while a capable, non-excluded peer
  is connected, and fails otherwise, with \<open>NoEligiblePeer\<close> when no attempt was made
  and \<open>RetriesExhausted\<close> after one. Sent: the attempt timer is armed. WaitingReply: a
  reply goes to validation, a timeout to Failed-retryable. Validating: a reply that
  verifies gives Done, released to every waiting caller, with the server pool notified of
  the success; any other gives Failed-retryable. Failed-retryable: back to Pending when
  budget remains and a peer could still serve, else \<open>RetriesExhausted\<close>. A cancellation
  ends any live Retrieval with \<open>Cancelled\<close>; a caller attaches to a live Retrieval
  only. An event that does not apply in the current state changes nothing. retrieve.go
  is missing.
\<close>

fun step :: "RetrieveEnv \<Rightarrow> event \<Rightarrow> Retrieval \<Rightarrow> Retrieval" where
  "step E (Select ps) r =
     (case rstate r of
        Pending \<Rightarrow>
          (case select (canSend E r) ps of
             Some p \<Rightarrow> r\<lparr>rstate := Sent (peer_id p), effects := effects r @ [Dispatched (peer_id p)]\<rparr>
           | None \<Rightarrow>
               if could_still_serve r ps then r
               else fail_terminal (if excluded r = [] then NoEligiblePeer else RetriesExhausted) r)
      | _ \<Rightarrow> r)"
| "step E Arm r =
     (case rstate r of
        Sent p \<Rightarrow> r\<lparr>rstate := WaitingReply p, effects := effects r @ [TimerArmed p]\<rparr>
      | _ \<Rightarrow> r)"
| "step E (Reply d) r =
     (case rstate r of WaitingReply p \<Rightarrow> r\<lparr>rstate := Validating p d\<rparr> | _ \<Rightarrow> r)"
| "step E Timeout r =
     (case rstate r of WaitingReply p \<Rightarrow> fail_retryable AttemptTimeout p r | _ \<Rightarrow> r)"
| "step E Validate r =
     (case rstate r of
        Validating p d \<Rightarrow>
          (case check_reply E d (request r) of
             Some v \<Rightarrow> release (Inr v) (r\<lparr>rstate := Done v, effects := effects r @ [PoolSuccess p]\<rparr>)
           | None \<Rightarrow> fail_retryable InvalidProof p r)
      | _ \<Rightarrow> r)"
| "step E (Retry ps) r =
     (case rstate r of
        FailedRetryable e \<Rightarrow>
          if 0 < budget r \<and> could_still_serve r ps
          then r\<lparr>rstate := Pending, budget := budget r - 1\<rparr>
          else fail_terminal RetriesExhausted r
      | _ \<Rightarrow> r)"
| "step E Cancel r = (if terminal r then r else fail_terminal Cancelled r)"
| "step E (Attach c) r = (if terminal r then r else r\<lparr>waiters := waiters r @ [c]\<rparr>)"

text \<open>
  Modelled from the spec: a Retrieval is "created on first ask", in state Pending, with
  the asking caller waiting, nothing excluded and the whole retry budget (section 3);
  retrieve.go is missing.
\<close>

definition newRetrieval :: "RetrieveEnv \<Rightarrow> Request \<Rightarrow> nat \<Rightarrow> Retrieval" where
  "newRetrieval E req c =
     \<lparr>request = req, excluded = [], rstate = Pending, budget = retry_budget E,
      waiters = [c], delivered = [], effects = []\<rparr>"

text \<open>
  Modelled from the spec: the lifetime of a Retrieval is a sequence of events, each
  transition strictly after the one before (section 4.4); retrieve.go is missing.
\<close>

fun run :: "RetrieveEnv \<Rightarrow> event list \<Rightarrow> Retrieval \<Rightarrow> Retrieval" where
  "run E [] r = r"
| "run E (e # es) r = run E es (step E e r)"

text \<open>
  Modelled from the spec: asking for a request when no Retrieval for it is live creates
  one and has the distributor look for a peer among those connected (section 4.4);
  retrieve.go is missing.
\<close>

definition ask_new :: "RetrieveEnv \<Rightarrow> Request \<Rightarrow> nat \<Rightarrow> Peer list \<Rightarrow> Retrieval" where
  "ask_new E req c ps = step E (Select ps) (newRetrieval E req c)"

text \<open>
  Modelled from the spec: identical asks have the "same type + payload + root"
  (section 4.4); odr.go is missing.
\<close>

type_synonym key = "string \<times> byte list \<times> byte list"

text \<open>
  Modelled from the spec: the key of a Request is its type, payload and root; the
  correlation id is not part of it (sections 3 and 4.4); odr.go is missing.
\<close>

definition key_of :: "Request \<Rightarrow> key" where
  "key_of req = (req_type req, req_payload req, req_root req)"

text \<open>
  Modelled from the spec: the manager's bookkeeping for deduplication (sections 3 and
  4.4): the live Retrievals by key, the keys of the Retrievals created so far, oldest
  first, and what was returned to which caller; odr.go is missing.
\<close>

record Manager =
  live :: "key \<Rightarrow> Retrieval option"
  created :: "key list"
  outbox :: "(nat \<times> key \<times> outcome) list"

text \<open>
  Modelled from the spec: the manager at node start, with no Retrieval live and none
  created (section 9); odr.go is missing.
\<close>

definition empty_manager :: Manager where
  "empty_manager = \<lparr>live = (\<lambda>k. None), created = [], outbox = []\<rparr>"

text \<open>
  Modelled from the spec: a Retrieval is "destroyed on terminal state" (section 3): its
  outcomes go to its callers and it stops being live; otherwise it is stored back;
  odr.go is missing.
\<close>

definition settle :: "key \<Rightarrow> Retrieval \<Rightarrow> Manager \<Rightarrow> Manager" where
  "settle k r m =
     (if terminal r then
        m\<lparr>live := (live m)(k := None),
          outbox := outbox m @ map (\<lambda>(c, out). (c, k, out)) (delivered r)\<rparr>
      else m\<lparr>live := (live m)(k \<mapsto> r)\<rparr>)"

text \<open>
  Modelled from the spec: what reaches the manager, in any interleaving (section 5): an
  ask by a caller, with the peers connected then, or an event of the Retrieval of a key;
  odr.go is missing.
\<close>

datatype mevent = Ask Request nat "Peer list" | Ev key event

text \<open>
  Modelled from the spec: "identical concurrent asks attach to the same live Retrieval
  rather than spawning a new one" (section 4.4); an ask with no live Retrieval creates
  one. odr.go is missing.
\<close>

fun mstep :: "RetrieveEnv \<Rightarrow> mevent \<Rightarrow> Manager \<Rightarrow> Manager" where
  "mstep E (Ask req c ps) m =
     (case live m (key_of req) of
        Some r \<Rightarrow> settle (key_of req) (step E (Attach c) r) m
      | None \<Rightarrow>
          settle (key_of req) (ask_new E req c ps) (m\<lparr>created := created m @ [key_of req]\<rparr>))"
| "mstep E (Ev k e) m =
     (case live m k of Some r \<Rightarrow> settle k (step E e r) m | None \<Rightarrow> m)"

text \<open>
  Modelled from the spec: the manager handles what reaches it one at a time, in the
  order of arrival (section 5); odr.go is missing.
\<close>

fun mrun :: "RetrieveEnv \<Rightarrow> mevent list \<Rightarrow> Manager \<Rightarrow> Manager" where
  "mrun E [] m = m"
| "mrun E (e # es) m = mrun E es (mstep E e m)"

text \<open>
  Modelled from the spec: the callers attached to the Retrieval of a key by a sequence
  of manager events, in order (section 4.4); odr.go is missing.
\<close>

fun askers :: "key \<Rightarrow> mevent list \<Rightarrow> nat list" where
  "askers k [] = []"
| "askers k (Ask req c ps # es) = (if key_of req = k then c # askers k es else askers k es)"
| "askers k (Ev k' (Attach c) # es) = (if k' = k then c # askers k es else askers k es)"
| "askers k (Ev k' e # es) = askers k es"

text \<open>
  Modelled from the spec: asks are concurrent with a Retrieval when it is live at each of
  them (section 4.4): the Retrieval of the key is live before every event of the sequence
  and after the last; odr.go is missing.
\<close>

fun stays_live :: "RetrieveEnv \<Rightarrow> key \<Rightarrow> mevent list \<Rightarrow> Manager \<Rightarrow> bool" where
  "stays_live E k [] m = (live m k \<noteq> None)"
| "stays_live E k (e # es) m = (live m k \<noteq> None \<and> stays_live E k es (mstep E e m))"

text \<open>
  Concrete inputs: a verifier that accepts a payload when it is the root followed by the
  value, a code request under the root \<open>[7]\<close>, and two peers serving code.
\<close>

definition prefix_env :: RetrieveEnv where
  "prefix_env = \<lparr>Verify = (\<lambda>proof rt. if take (length rt) proof = rt
        then Some (drop (length rt) proof) else None),
     max_outstanding = 2, retry_budget = 3\<rparr>"

definition code_request :: Request where
  "code_request = \<lparr>req_id = 1, req_type = ''code'', req_payload = [1, 2], req_root = [7]\<rparr>"

definition peerA :: Peer where
  "peerA = \<lparr>peer_id = 10, capabilities = [''code''], outstanding = 0, quality = 5\<rparr>"

definition peerB :: Peer where
  "peerB = \<lparr>peer_id = 11, capabilities = [''code'', ''receipts''], outstanding = 1, quality = 3\<rparr>"

subsection \<open>Invariants of the retrieval core\<close>

text \<open>
  What holds of a Retrieval after the events \<open>R\<close>: nothing is released before a
  terminal state, the reply under validation is one that was received, a Retrieval that
  is done holds a value that a received payload verifies to under the Request's root,
  and a terminal Retrieval has released its outcome, the same one, to every caller.
\<close>

definition verified_inv :: "RetrieveEnv \<Rightarrow> event set \<Rightarrow> Retrieval \<Rightarrow> bool" where
  "verified_inv E R r =
     ((\<not> terminal r \<longrightarrow> delivered r = []) \<and>
      (\<forall>p d. rstate r = Validating p d \<longrightarrow> Reply d \<in> R) \<and>
      (\<forall>v. rstate r = Done v \<longrightarrow>
         (\<exists>bs. Reply (Data bs) \<in> R \<and> Verify E bs (req_root (request r)) = Some v) \<and>
         delivered r = map (\<lambda>c. (c, Inr v)) (waiters r)) \<and>
      (\<forall>e. rstate r = FailedTerminal e \<longrightarrow> delivered r = map (\<lambda>c. (c, Inl e)) (waiters r)))"

text \<open>The Retrievals a manager holds as live are not terminal.\<close>

definition live_ok :: "Manager \<Rightarrow> bool" where
  "live_ok m = (\<forall>k r. live m k = Some r \<longrightarrow> \<not> terminal r)"

section \<open>Properties of the discovery topic\<close>

subsection \<open>Hex encoding is injective\<close>

lemma hextable_distinct: "distinct hextable" "length hextable = 16"
  by (simp_all add: hextable_def)

lemma hex_digit_inj:
  "i < 16 \<Longrightarrow> j < 16 \<Longrightarrow> hextable ! i = hextable ! j \<Longrightarrow> i = j"
  using hextable_distinct by (simp add: nth_eq_iff_index_eq)

lemma hex_byte_inj: "hex_byte a = hex_byte b \<Longrightarrow> a = b"
proof -
  assume h: "hex_byte a = hex_byte b"
  have la: "unat a < 256" using unsigned_less [of a, where ?'a = nat] by simp
  have lb: "unat b < 256" using unsigned_less [of b, where ?'a = nat] by simp
  from h have d: "hextable ! (unat a div 16) = hextable ! (unat b div 16)"
    and m: "hextable ! (unat a mod 16) = hextable ! (unat b mod 16)"
    by (simp_all add: hex_byte_def)
  have "unat a div 16 = unat b div 16"
    using d la lb by (intro hex_digit_inj) auto
  moreover have "unat a mod 16 = unat b mod 16"
    using m by (intro hex_digit_inj) auto
  ultimately have "unat a = unat b"
    by (metis div_mult_mod_eq)
  then show "a = b" by (simp add: word_unat_eq_iff)
qed

lemma Bytes2Hex_Cons: "Bytes2Hex (v # d) = hex_byte v @ Bytes2Hex d"
  by (simp add: Bytes2Hex_def)

lemma Bytes2Hex_inj: "Bytes2Hex xs = Bytes2Hex ys \<Longrightarrow> xs = ys"
proof (induction xs arbitrary: ys)
  case Nil
  then show ?case by (cases ys) (simp_all add: Bytes2Hex_def hex_byte_def)
next
  case (Cons x xs)
  show ?case
  proof (cases ys)
    case Nil
    with Cons.prems show ?thesis by (simp add: Bytes2Hex_def hex_byte_def)
  next
    case (Cons y ys')
    with Cons.prems have "hex_byte x @ Bytes2Hex xs = hex_byte y @ Bytes2Hex ys'"
      by (simp add: Bytes2Hex_Cons)
    then have "hex_byte x = hex_byte y" "Bytes2Hex xs = Bytes2Hex ys'"
      by (simp_all add: hex_byte_def)
    then show ?thesis using Cons.IH Cons hex_byte_inj by blast
  qed
qed

text \<open>
  Claim C3. For every genesis hash, the topic of version \<open>lpv1\<close> is \<^verbatim>\<open>"LES"\<close>, then
  \<^verbatim>\<open>"@"\<close>, then the hex encoding of the first 8 bytes of the hash, and the topic of
  version \<open>lpv2\<close> is \<^verbatim>\<open>"LES2"\<close>, then \<^verbatim>\<open>"@"\<close>, then the same hex prefix; two clients on
  supported versions compute the same topic exactly when their versions and the first
  8 bytes of their genesis hashes agree. The two constants differ (Go rejects a
  \<^verbatim>\<open>switch\<close> with a repeated constant case) and a hash has 32 bytes.
\<close>

theorem lesTopic_format:
  assumes "lpv1 \<noteq> lpv2" and "length g = 32" and "length g' = 32"
  shows "lesTopic lpv1 lpv2 g lpv1 = Inr (''LES'' @ ''@'' @ Bytes2Hex (take 8 g)) \<and>
         lesTopic lpv1 lpv2 g lpv2 = Inr (''LES2'' @ ''@'' @ Bytes2Hex (take 8 g)) \<and>
         (\<forall>v \<in> {lpv1, lpv2}. \<forall>v' \<in> {lpv1, lpv2}.
            (lesTopic lpv1 lpv2 g v = lesTopic lpv1 lpv2 g' v') =
            (v = v' \<and> take 8 g = take 8 g'))"
proof -
  have same: "(Bytes2Hex (take 8 g) = Bytes2Hex (take 8 g')) = (take 8 g = take 8 g')"
    by (auto dest: Bytes2Hex_inj)
  show ?thesis
    using assms(1) by (auto simp: lesTopic_def same)
qed

text \<open>The theorem at \<open>lpv1 = 1\<close>, \<open>lpv2 = 2\<close> and hashes that share or differ in their prefix.\<close>

theorem lesTopic_format_witness:
  "lesTopic 1 2 (replicate 32 171) 1 = Inr ''LES@abababababababab'' \<and>
   lesTopic 1 2 (replicate 32 171) 2 = Inr ''LES2@abababababababab'' \<and>
   lesTopic 1 2 (replicate 32 171) 2 \<noteq> lesTopic 1 2 (replicate 8 171 @ replicate 24 0) 1 \<and>
   lesTopic 1 2 (replicate 32 171) 2 = lesTopic 1 2 (replicate 8 171 @ replicate 24 0) 2 \<and>
   lesTopic 1 2 (replicate 32 171) 2 \<noteq> lesTopic 1 2 (replicate 32 186) 2"
proof -
  have ne: "(1::nat) \<noteq> 2" by simp
  have l1: "length (replicate 32 (171::byte)) = 32" by simp
  have l2: "length (replicate 8 (171::byte) @ replicate 24 0) = 32" by simp
  have l3: "length (replicate 32 (186::byte)) = 32" by simp
  have hx: "Bytes2Hex (replicate 8 (171::byte)) = ''abababababababab''"
    by code_simp
  have f1: "lesTopic 1 2 (replicate 32 171) 1 = Inr ''LES@abababababababab''"
    using lesTopic_format [OF ne l1 l1] by (simp add: hx)
  have f2: "lesTopic 1 2 (replicate 32 171) 2 = Inr ''LES2@abababababababab''"
    using lesTopic_format [OF ne l1 l1] by (simp add: hx)
  have f3: "lesTopic 1 2 (replicate 32 171) 2 \<noteq> lesTopic 1 2 (replicate 8 171 @ replicate 24 0) 1"
    using lesTopic_format [OF ne l1 l2] by auto
  have f4: "lesTopic 1 2 (replicate 32 171) 2 = lesTopic 1 2 (replicate 8 171 @ replicate 24 0) 2"
    using lesTopic_format [OF ne l1 l2] by auto
  have f5: "lesTopic 1 2 (replicate 32 171) 2 \<noteq> lesTopic 1 2 (replicate 32 186) 2"
    using lesTopic_format [OF ne l1 l3] by auto
  from f1 f2 f3 f4 f5 show ?thesis by blast
qed

text \<open>
  Claim C9. For every protocol version other than \<open>lpv1\<close> and \<open>lpv2\<close> the topic function
  panics, whatever the genesis hash, and it panics for no other version: it returns a
  topic exactly on the two supported versions.
\<close>

theorem lesTopic_unsupported_panics:
  "(lesTopic lpv1 lpv2 g v = Inl PanicNil) = (v \<noteq> lpv1 \<and> v \<noteq> lpv2)"
  by (simp add: lesTopic_def)

text \<open>Versions 3 and 0 panic; versions 1 and 2 do not.\<close>

theorem lesTopic_unsupported_panics_witness:
  "lesTopic 1 2 (replicate 32 171) 3 = Inl PanicNil \<and>
   lesTopic 1 2 (replicate 32 171) 0 = Inl PanicNil \<and>
   lesTopic 1 2 (replicate 32 171) 1 \<noteq> Inl PanicNil \<and>
   lesTopic 1 2 (replicate 32 171) 2 \<noteq> Inl PanicNil"
  using lesTopic_unsupported_panics [of 1 2 "replicate 32 171" 3]
    lesTopic_unsupported_panics [of 1 2 "replicate 32 171" 0]
    lesTopic_unsupported_panics [of 1 2 "replicate 32 171" 1]
    lesTopic_unsupported_panics [of 1 2 "replicate 32 171" 2]
  by simp


section \<open>Properties of the metered message streams\<close>

subsection \<open>The two switch statements against the classification\<close>

lemma in_meters:
  "(if c = BlockHeadersMsg P then (reqHeaderInPacketsMeter, reqHeaderInTrafficMeter)
    else if c = BlockBodiesMsg P then (reqBodyInPacketsMeter, reqBodyInTrafficMeter)
    else if version rw \<ge> gda63 P \<and> c = NodeDataMsg P then
      (reqStateInPacketsMeter, reqStateInTrafficMeter)
    else if version rw \<ge> gda63 P \<and> c = ReceiptsMsg P then
      (reqReceiptInPacketsMeter, reqReceiptInTrafficMeter)
    else if c = NewBlockHashesMsg P then (propHashInPacketsMeter, propHashInTrafficMeter)
    else if c = NewBlockMsg P then (propBlockInPacketsMeter, propBlockInTrafficMeter)
    else if c = TxMsg P then (propTxnInPacketsMeter, propTxnInTrafficMeter)
    else (miscInPacketsMeter, miscInTrafficMeter)) =
   (Meter Gda (msg_kind P (version rw) c) In Packets,
    Meter Gda (msg_kind P (version rw) c) In Traffic)"
  unfolding msg_kind_def by simp

lemma out_meters:
  "(if c = BlockHeadersMsg P then (reqHeaderOutPacketsMeter, reqHeaderOutTrafficMeter)
    else if c = BlockBodiesMsg P then (reqBodyOutPacketsMeter, reqBodyOutTrafficMeter)
    else if version rw \<ge> gda63 P \<and> c = NodeDataMsg P then
      (reqStateOutPacketsMeter, reqStateOutTrafficMeter)
    else if version rw \<ge> gda63 P \<and> c = ReceiptsMsg P then
      (reqReceiptOutPacketsMeter, reqReceiptOutTrafficMeter)
    else if c = NewBlockHashesMsg P then (propHashOutPacketsMeter, propHashOutTrafficMeter)
    else if c = NewBlockMsg P then (propBlockOutPacketsMeter, propBlockOutTrafficMeter)
    else if c = TxMsg P then (propTxnOutPacketsMeter, propTxnOutTrafficMeter)
    else (miscOutPacketsMeter, miscOutTrafficMeter)) =
   (Meter Gda (msg_kind P (version rw) c) Out Packets,
    Meter Gda (msg_kind P (version rw) c) Out Traffic)"
  unfolding msg_kind_def by simp

lemma gda_ReadMsg_eq:
  "gda_ReadMsg P rw (s, snk) =
     (case ReadMsg (MsgReadWriter rw) s of ((msg, err), s') \<Rightarrow>
        if err \<noteq> None then ((msg, err), (s', snk))
        else ((msg, err), (s',
          snk @ [(Meter Gda (msg_kind P (version rw) (Code msg)) In Packets, 1),
                 (Meter Gda (msg_kind P (version rw) (Code msg)) In Traffic, uint (Size msg))])))"
  unfolding gda_ReadMsg_def in_meters by (simp add: Mark_def split: prod.splits)

lemma gda_WriteMsg_eq:
  "gda_WriteMsg P rw msg (s, snk) =
     (case WriteMsg (MsgReadWriter rw) msg s of (err, s') \<Rightarrow>
        (err, (s',
          snk @ [(Meter Gda (msg_kind P (version rw) (Code msg)) Out Packets, 1),
                 (Meter Gda (msg_kind P (version rw) (Code msg)) Out Traffic, uint (Size msg))])))"
  unfolding gda_WriteMsg_def out_meters by (simp add: Mark_def)

lemma les_ReadMsg_eq:
  "les_ReadMsg rw (s, snk) =
     (case ReadMsg (MsgReadWriter rw) s of ((msg, err), s') \<Rightarrow>
        if err \<noteq> None then ((msg, err), (s', snk))
        else ((msg, err), (s',
          snk @ [(Meter Les Misc In Packets, 1), (Meter Les Misc In Traffic, uint (Size msg))])))"
  unfolding les_ReadMsg_def by (simp add: Mark_def split: prod.splits)

lemma les_WriteMsg_eq:
  "les_WriteMsg rw msg (s, snk) =
     (case WriteMsg (MsgReadWriter rw) msg s of (err, s') \<Rightarrow>
        (err, (s',
          snk @ [(Meter Les Misc Out Packets, 1), (Meter Les Misc Out Traffic, uint (Size msg))])))"
  unfolding les_WriteMsg_def by (simp add: Mark_def)

lemma msg_kind_state:
  "(msg_kind P v c = ReqState) =
     (gda63 P \<le> v \<and> c = NodeDataMsg P \<and> c \<noteq> BlockHeadersMsg P \<and> c \<noteq> BlockBodiesMsg P)"
  by (simp add: msg_kind_def)

lemma msg_kind_receipt:
  "(msg_kind P v c = ReqReceipt) =
     (gda63 P \<le> v \<and> c = ReceiptsMsg P \<and> c \<noteq> BlockHeadersMsg P \<and> c \<noteq> BlockBodiesMsg P
        \<and> c \<noteq> NodeDataMsg P)"
  by (auto simp: msg_kind_def)

subsection \<open>Accounting\<close>

text \<open>
  Claim C4, as stated, fails: a message with the code of a state or receipt message is
  not always accounted to the state or receipt meters. In package gda a stream whose
  version is below \<open>gda63\<close> (62 after \<^verbatim>\<open>Init(62)\<close>, or 0 when \<^verbatim>\<open>Init\<close> was never called)
  records it on the misc meters; in package les every message, whatever its kind, is
  recorded on the misc meters of that package.
\<close>

theorem state_messages_own_meters_counterexample:
  "snd (snd (gda_ReadMsg eth_protocol
      (\<lparr>MsgReadWriter = const_stream \<lparr>Code = NodeDataMsg eth_protocol, Size = 10, Payload = []\<rparr> None, version = 62\<rparr>)
      (0, []))) = [(miscInPacketsMeter, 1), (miscInTrafficMeter, 10)] \<and>
   snd (snd (gda_WriteMsg eth_protocol
      (\<lparr>MsgReadWriter = const_stream \<lparr>Code = 0, Size = 0, Payload = []\<rparr> None, version = 0\<rparr>)
      \<lparr>Code = ReceiptsMsg eth_protocol, Size = 7, Payload = []\<rparr> (0, []))) =
     [(miscOutPacketsMeter, 1), (miscOutTrafficMeter, 7)] \<and>
   snd (snd (les_ReadMsg
      (\<lparr>MsgReadWriter = const_stream \<lparr>Code = NodeDataMsg eth_protocol, Size = 10, Payload = []\<rparr> None, version = 2\<rparr>)
      (0, []))) = [(les_miscInPacketsMeter, 1), (les_miscInTrafficMeter, 10)] \<and>
   snd (snd (les_ReadMsg
      (\<lparr>MsgReadWriter = const_stream \<lparr>Code = BlockHeadersMsg eth_protocol, Size = 10, Payload = []\<rparr> None, version = 2\<rparr>)
      (0, []))) = [(les_miscInPacketsMeter, 1), (les_miscInTrafficMeter, 10)]"
  by (simp add: gda_ReadMsg_eq gda_WriteMsg_eq les_ReadMsg_eq msg_kind_def eth_protocol_def
      const_stream_def)

text \<open>
  Claim C4, amended. Every message successfully read and every message written through
  a metered stream marks exactly one packet and the message's size, inbound and outbound
  on separate meters, and a failed read marks nothing. In package gda the meter pair is
  the one of the message's kind, where a message counts as a state (receipt) message only
  on a stream of version \<open>gda63\<close> or later; in package les the pair is always the misc
  pair of that package.
\<close>

theorem metered_accounting:
  "(ReadMsg (MsgReadWriter rw) s = ((m, None), s') \<longrightarrow>
      snd (snd (gda_ReadMsg P rw (s, snk))) =
        snk @ [(Meter Gda (msg_kind P (version rw) (Code m)) In Packets, 1),
               (Meter Gda (msg_kind P (version rw) (Code m)) In Traffic, uint (Size m))] \<and>
      snd (snd (les_ReadMsg rw (s, snk))) =
        snk @ [(Meter Les Misc In Packets, 1), (Meter Les Misc In Traffic, uint (Size m))]) \<and>
   (ReadMsg (MsgReadWriter rw) s = ((m, Some e), s') \<longrightarrow>
      snd (snd (gda_ReadMsg P rw (s, snk))) = snk \<and> snd (snd (les_ReadMsg rw (s, snk))) = snk) \<and>
   snd (snd (gda_WriteMsg P rw msg (s, snk))) =
     snk @ [(Meter Gda (msg_kind P (version rw) (Code msg)) Out Packets, 1),
            (Meter Gda (msg_kind P (version rw) (Code msg)) Out Traffic, uint (Size msg))] \<and>
   snd (snd (les_WriteMsg rw msg (s, snk))) =
     snk @ [(Meter Les Misc Out Packets, 1), (Meter Les Misc Out Traffic, uint (Size msg))] \<and>
   (msg_kind P v c = ReqState) =
     (gda63 P \<le> v \<and> c = NodeDataMsg P \<and> c \<noteq> BlockHeadersMsg P \<and> c \<noteq> BlockBodiesMsg P) \<and>
   (msg_kind P v c = ReqReceipt) =
     (gda63 P \<le> v \<and> c = ReceiptsMsg P \<and> c \<noteq> BlockHeadersMsg P \<and> c \<noteq> BlockBodiesMsg P \<and>
      c \<noteq> NodeDataMsg P)"
  by (simp add: gda_ReadMsg_eq gda_WriteMsg_eq les_ReadMsg_eq les_WriteMsg_eq
      msg_kind_state msg_kind_receipt split: prod.splits)

text \<open>
  The theorem on a version-63 stream that delivers a state message of 10 bytes, and on a
  header message of 300 bytes written to it.
\<close>

theorem metered_accounting_witness:
  "snd (snd (gda_ReadMsg eth_protocol
      (\<lparr>MsgReadWriter = const_stream \<lparr>Code = 14, Size = 10, Payload = []\<rparr> None, version = 63\<rparr>)
      (0, []))) = [(reqStateInPacketsMeter, 1), (reqStateInTrafficMeter, 10)] \<and>
   snd (snd (les_ReadMsg
      (\<lparr>MsgReadWriter = const_stream \<lparr>Code = 14, Size = 10, Payload = []\<rparr> None, version = 63\<rparr>)
      (0, []))) = [(les_miscInPacketsMeter, 1), (les_miscInTrafficMeter, 10)] \<and>
   snd (snd (gda_WriteMsg eth_protocol
      (\<lparr>MsgReadWriter = const_stream \<lparr>Code = 14, Size = 10, Payload = []\<rparr> None, version = 63\<rparr>)
      \<lparr>Code = 4, Size = 300, Payload = []\<rparr> (0, []))) =
     [(reqHeaderOutPacketsMeter, 1), (reqHeaderOutTrafficMeter, 300)] \<and>
   msg_kind eth_protocol 63 16 = ReqReceipt \<and> msg_kind eth_protocol 62 16 = Misc"
proof -
  let ?m = "\<lparr>Code = 14, Size = 10, Payload = []\<rparr>"
  let ?rw = "\<lparr>MsgReadWriter = const_stream ?m None, version = 63\<rparr>"
  have rd: "ReadMsg (MsgReadWriter ?rw) 0 = ((?m, None), Suc 0)"
    by (simp add: const_stream_def)
  have k: "msg_kind eth_protocol (version ?rw) (Code ?m) = ReqState"
    "msg_kind eth_protocol (version ?rw) 4 = ReqHeader"
    "msg_kind eth_protocol 62 16 = Misc"
    by (simp_all add: msg_kind_def eth_protocol_def)
  note a = metered_accounting [where P = eth_protocol and rw = ?rw and s = 0 and snk = "[]"
      and m = ?m and s' = "Suc 0" and msg = "\<lparr>Code = 4, Size = 300, Payload = []\<rparr>"
      and v = 63 and c = 16]
  from a rd k show ?thesis
    by (simp add: eth_protocol_def)
qed

subsection \<open>Transparency\<close>

text \<open>
  Claim C5. For every wrapped stream and every message, \<^verbatim>\<open>ReadMsg\<close> of the metered
  wrapper returns exactly the message and the error of the underlying \<^verbatim>\<open>ReadMsg\<close>, and
  \<^verbatim>\<open>WriteMsg\<close> returns exactly the error of the underlying \<^verbatim>\<open>WriteMsg\<close>; the underlying
  stream is left in the state the underlying call leaves it in. This holds for the
  wrappers of both packages, whatever the sink holds.
\<close>

theorem metered_passthrough:
  "fst (gda_ReadMsg P rw (s, snk)) = fst (ReadMsg (MsgReadWriter rw) s) \<and>
   fst (snd (gda_ReadMsg P rw (s, snk))) = snd (ReadMsg (MsgReadWriter rw) s) \<and>
   fst (gda_WriteMsg P rw msg (s, snk)) = fst (WriteMsg (MsgReadWriter rw) msg s) \<and>
   fst (snd (gda_WriteMsg P rw msg (s, snk))) = snd (WriteMsg (MsgReadWriter rw) msg s) \<and>
   fst (les_ReadMsg rw (s, snk)) = fst (ReadMsg (MsgReadWriter rw) s) \<and>
   fst (snd (les_ReadMsg rw (s, snk))) = snd (ReadMsg (MsgReadWriter rw) s) \<and>
   fst (les_WriteMsg rw msg (s, snk)) = fst (WriteMsg (MsgReadWriter rw) msg s) \<and>
   fst (snd (les_WriteMsg rw msg (s, snk))) = snd (WriteMsg (MsgReadWriter rw) msg s)"
  by (simp add: gda_ReadMsg_eq gda_WriteMsg_eq les_ReadMsg_eq les_WriteMsg_eq
      split: prod.splits)

text \<open>A failing underlying stream: the wrapper returns its message and error unchanged.\<close>

theorem metered_passthrough_witness:
  "fst (gda_ReadMsg eth_protocol
      (\<lparr>MsgReadWriter = const_stream \<lparr>Code = 14, Size = 10, Payload = []\<rparr> (Some (Error ''EOF'')), version = 63\<rparr>)
      (0, [])) = (\<lparr>Code = 14, Size = 10, Payload = []\<rparr>, Some (Error ''EOF'')) \<and>
   fst (les_WriteMsg (\<lparr>MsgReadWriter = const_stream \<lparr>Code = 0, Size = 0, Payload = []\<rparr> (Some (Error ''closed'')), version = 0\<rparr>)
      \<lparr>Code = 16, Size = 7, Payload = []\<rparr> (0, [])) = Some (Error ''closed'') \<and>
   fst (gda_WriteMsg eth_protocol (\<lparr>MsgReadWriter = const_stream \<lparr>Code = 0, Size = 0, Payload = []\<rparr> None, version = 0\<rparr>)
      \<lparr>Code = 16, Size = 7, Payload = []\<rparr> (0, [])) = None"
  using metered_passthrough [where P = eth_protocol and s = 0 and snk = "[]"
      and rw = "\<lparr>MsgReadWriter = const_stream \<lparr>Code = 14, Size = 10, Payload = []\<rparr> (Some (Error ''EOF'')), version = 63\<rparr>"]
    metered_passthrough [where s = 0 and snk = "[]" and msg = "\<lparr>Code = 16, Size = 7, Payload = []\<rparr>"
      and rw = "\<lparr>MsgReadWriter = const_stream \<lparr>Code = 0, Size = 0, Payload = []\<rparr> (Some (Error ''closed'')), version = 0\<rparr>"]
    metered_passthrough [where P = eth_protocol and s = 0 and snk = "[]" and msg = "\<lparr>Code = 16, Size = 7, Payload = []\<rparr>"
      and rw = "\<lparr>MsgReadWriter = const_stream \<lparr>Code = 0, Size = 0, Payload = []\<rparr> None, version = 0\<rparr>"]
  by (simp add: const_stream_def)


section \<open>Properties of the receipt encoding\<close>





text \<open>
  A remark on the \<^verbatim>\<open>Status\<close> field beside a post-state. The receipt that
  \<^verbatim>\<open>NewReceipt(root, false, 21000)\<close> builds for a 32-byte root has the status
  \<^verbatim>\<open>ReceipgdaatusSuccessful\<close>; its encoding carries the post-state alone, so a fresh
  receiver keeps its own status, \<^verbatim>\<open>ReceipgdaatusFailed\<close>, while the status-or-post-state
  item is the original's.
\<close>

lemma status_not_encoded_beside_post_state:
  "EncodeRLP plain_codec (NewReceipt (replicate 32 171) False 21000 :: unit Receipt) =
     Inr \<lparr>PosgdaateOrStatus = replicate 32 171, rlp_CumulativeGasUsed = 21000,
          rlp_Bloom = replicate 256 0, rlp_Logs = []\<rparr> \<and>
   DecodeRLP plain_codec (zeroReceipt :: unit Receipt)
       \<lparr>PosgdaateOrStatus = replicate 32 171, rlp_CumulativeGasUsed = 21000,
        rlp_Bloom = replicate 256 0, rlp_Logs = []\<rparr> =
     Inr ((NewReceipt (replicate 32 171) False 21000)\<lparr>Status := ReceipgdaatusFailed\<rparr>) \<and>
   statusEncoding ((NewReceipt (replicate 32 171) False 21000 :: unit Receipt)\<lparr>Status := ReceipgdaatusFailed\<rparr>) =
     statusEncoding (NewReceipt (replicate 32 171) False 21000 :: unit Receipt)"
proof -
  have ne: "replicate 32 (171::byte) \<noteq> [1]" "replicate 32 (171::byte) \<noteq> []"
    by (auto dest: arg_cong [where f = length])
  show ?thesis
    by (simp add: ne EncodeRLP_def DecodeRLP_def plain_codec_def NewReceipt_def zeroReceipt_def
      statusEncoding_def segdaatus_def receipgdaatusFailedRLP_def receipgdaatusSuccessfulRLP_def
      ReceipgdaatusFailed_def ReceipgdaatusSuccessful_def HashLength_def)
qed

section \<open>Properties of the full-node constructor\<close>

text \<open>
  Claim C10. For every configuration whose sync mode is \<^verbatim>\<open>LightSync\<close>, \<^verbatim>\<open>New\<close> returns the
  light-sync error and no service, having made no call at all: no database is opened and
  no chain state created. Likewise a sync mode that is not valid is rejected with an
  error (the invalid-sync-mode error, when it is not \<^verbatim>\<open>LightSync\<close>) before any call.
\<close>

theorem New_rejects_light_and_invalid:
  "(SyncMode cfg = LightSync E \<longrightarrow>
      New E cfg = (Inl (ErrorNew (''can'' @ [CHR 0x27] @
        ''t run gda.gdachain in light sync mode, use les.Lightgdachain'')), [])) \<and>
   (\<not> IsValid E (SyncMode cfg) \<longrightarrow>
      (\<exists>err. fst (New E cfg) = Inl err) \<and> snd (New E cfg) = []) \<and>
   (SyncMode cfg \<noteq> LightSync E \<and> \<not> IsValid E (SyncMode cfg) \<longrightarrow>
      New E cfg = (Inl (Errorf ''invalid sync mode %d'' [SyncMode cfg]), []))"
  by (simp add: New_def)

text \<open>Mode 2 is the light mode; modes 7 and -1 are not valid.\<close>

theorem New_rejects_light_and_invalid_witness:
  "New plain_env \<lparr>SyncMode = 2, SkipBcVersionCheck = False, NetworkId = 1\<rparr> =
     (Inl (ErrorNew (''can'' @ [CHR 0x27] @
        ''t run gda.gdachain in light sync mode, use les.Lightgdachain'')), []) \<and>
   New plain_env \<lparr>SyncMode = 7, SkipBcVersionCheck = False, NetworkId = 1\<rparr> =
     (Inl (Errorf ''invalid sync mode %d'' [7]), []) \<and>
   snd (New plain_env \<lparr>SyncMode = - 1, SkipBcVersionCheck = True, NetworkId = 1\<rparr>) = []"
  using New_rejects_light_and_invalid [of "\<lparr>SyncMode = 2, SkipBcVersionCheck = False, NetworkId = 1\<rparr>" plain_env]
    New_rejects_light_and_invalid [of "\<lparr>SyncMode = 7, SkipBcVersionCheck = False, NetworkId = 1\<rparr>" plain_env]
    New_rejects_light_and_invalid [of "\<lparr>SyncMode = - 1, SkipBcVersionCheck = True, NetworkId = 1\<rparr>" plain_env]
  by (simp add: plain_env_def)

text \<open>The guards matter: with any other valid mode the first thing \<^verbatim>\<open>New\<close> does is open the database.\<close>

lemma New_valid_mode_opens_db:
  "SyncMode cfg \<noteq> LightSync E \<Longrightarrow> IsValid E (SyncMode cfg) \<Longrightarrow>
     snd (New E cfg) \<noteq> [] \<and> hd (snd (New E cfg)) = Call_CreateDB"
  by (simp add: New_def Let_def split: option.splits genesis_error.splits)


section \<open>Properties of the retrieval core\<close>

subsection \<open>Selection, exclusion and effects\<close>

lemma select_Some: "select pred ps = Some p \<Longrightarrow> pred p \<and> p \<in> set ps"
  by (induction ps arbitrary: p) (auto split: if_splits option.splits)

lemma select_None: "(select pred ps = None) = (\<forall>p \<in> set ps. \<not> pred p)"
  by (induction ps) (auto split: option.splits)


lemma terminal_iff:
  "terminal r = ((\<exists>v. rstate r = Done v) \<or> (\<exists>e. rstate r = FailedTerminal e))"
  by (cases "rstate r") (simp_all add: terminal_def)

lemma excluded_step: "\<exists>xs. excluded (step E e r) = excluded r @ xs"
  by (cases e; cases "rstate r")
     (auto simp: fail_terminal_def fail_retryable_def release_def terminal_def
        split: option.splits)

lemma excluded_run: "\<exists>xs. excluded (run E es r) = excluded r @ xs"
proof (induction es arbitrary: r)
  case Nil
  then show ?case by simp
next
  case (Cons e es)
  obtain xs where a: "excluded (step E e r) = excluded r @ xs"
    using excluded_step by blast
  obtain ys where b: "excluded (run E es (step E e r)) = excluded (step E e r) @ ys"
    using Cons.IH by blast
  show ?case using a b by simp
qed

lemma effects_step:
  "\<exists>fx. effects (step E e r) = effects r @ fx \<and>
     (\<forall>p \<in> set (excluded r). Dispatched p \<notin> set fx)"
  by (cases e; cases "rstate r")
     (auto simp: fail_terminal_def fail_retryable_def release_def terminal_def canSend_def
        dest!: select_Some split: option.splits)

lemma effects_run:
  "\<exists>fx. effects (run E es r) = effects r @ fx \<and>
     (\<forall>p \<in> set (excluded r). Dispatched p \<notin> set fx)"
proof (induction es arbitrary: r)
  case Nil
  then show ?case by simp
next
  case (Cons e es)
  obtain fx where a: "effects (step E e r) = effects r @ fx"
    and a': "\<forall>p \<in> set (excluded r). Dispatched p \<notin> set fx"
    using effects_step by blast
  obtain gx where b: "effects (run E es (step E e r)) = effects (step E e r) @ gx"
    and b': "\<forall>p \<in> set (excluded (step E e r)). Dispatched p \<notin> set gx"
    using Cons.IH by blast
  obtain xs where c: "excluded (step E e r) = excluded r @ xs"
    using excluded_step by blast
  have "effects (run E (e # es) r) = effects r @ (fx @ gx)"
    using a b by simp
  moreover have "\<forall>p \<in> set (excluded r). Dispatched p \<notin> set (fx @ gx)"
    using a' b' c by auto
  ultimately show ?case by blast
qed

text \<open>
  Claim C6. For every Retrieval, the exclusion set only grows: after any further events
  it is the old set with peers appended, so no transition removes a peer; a timeout and
  an invalid proof each add the attempted peer; the peer a selection dispatches to is
  not in the set; and once a peer is in the set, no later event dispatches to it.
\<close>

theorem exclusion_set_grows:
  "(\<exists>xs. excluded (run E es r) = excluded r @ xs) \<and>
   (rstate r = WaitingReply p \<longrightarrow> p \<in> set (excluded (step E Timeout r))) \<and>
   (rstate r = Validating p d \<and> check_reply E d (request r) = None \<longrightarrow>
      p \<in> set (excluded (step E Validate r))) \<and>
   (rstate r = Pending \<and> rstate (step E (Select ps) r) = Sent p \<longrightarrow> p \<notin> set (excluded r)) \<and>
   (p \<in> set (excluded r) \<longrightarrow>
      (\<exists>fx. effects (run E es r) = effects r @ fx \<and> Dispatched p \<notin> set fx))"
proof -
  have a: "\<exists>xs. excluded (run E es r) = excluded r @ xs"
    by (rule excluded_run)
  have b: "rstate r = WaitingReply p \<longrightarrow> p \<in> set (excluded (step E Timeout r))"
    by (simp add: fail_retryable_def)
  have c: "rstate r = Validating p d \<and> check_reply E d (request r) = None \<longrightarrow>
      p \<in> set (excluded (step E Validate r))"
    by (simp add: fail_retryable_def)
  have d: "rstate r = Pending \<and> rstate (step E (Select ps) r) = Sent p \<longrightarrow> p \<notin> set (excluded r)"
    by (auto simp: fail_terminal_def release_def canSend_def dest!: select_Some
        split: option.splits if_splits)
  have e: "p \<in> set (excluded r) \<longrightarrow>
      (\<exists>fx. effects (run E es r) = effects r @ fx \<and> Dispatched p \<notin> set fx)"
    using effects_run [of E es r] by blast
  from a b c d e show ?thesis by blast
qed

text \<open>
  Peer 10 times out and is excluded; the retry then dispatches to peer 11, never to 10.
\<close>

theorem exclusion_set_grows_witness:
  "10 \<in> set (excluded (step prefix_env Timeout
      (run prefix_env [Select [peerA, peerB], Arm] (newRetrieval prefix_env code_request 1)))) \<and>
   (\<exists>fx. effects (run prefix_env [Retry [peerA, peerB], Select [peerA, peerB], Arm]
             (run prefix_env [Select [peerA, peerB], Arm, Timeout] (newRetrieval prefix_env code_request 1))) =
           effects (run prefix_env [Select [peerA, peerB], Arm, Timeout] (newRetrieval prefix_env code_request 1)) @ fx \<and>
         Dispatched 10 \<notin> set fx) \<and>
   rstate (run prefix_env [Retry [peerA, peerB], Select [peerA, peerB], Arm]
             (run prefix_env [Select [peerA, peerB], Arm, Timeout] (newRetrieval prefix_env code_request 1))) =
     WaitingReply 11"
proof -
  let ?r0 = "run prefix_env [Select [peerA, peerB], Arm] (newRetrieval prefix_env code_request 1)"
  let ?r1 = "run prefix_env [Select [peerA, peerB], Arm, Timeout] (newRetrieval prefix_env code_request 1)"
  have s0: "rstate ?r0 = WaitingReply 10"
    by code_simp
  have x1: "10 \<in> set (excluded ?r1)"
    by code_simp
  have s2: "rstate (run prefix_env [Retry [peerA, peerB], Select [peerA, peerB], Arm] ?r1) = WaitingReply 11"
    by code_simp
  from exclusion_set_grows [where r = ?r0 and p = 10 and E = prefix_env] s0
  have a: "10 \<in> set (excluded (step prefix_env Timeout ?r0))"
    by blast
  from exclusion_set_grows [where r = ?r1 and p = 10 and E = prefix_env
      and es = "[Retry [peerA, peerB], Select [peerA, peerB], Arm]"] x1
  have b: "\<exists>fx. effects (run prefix_env [Retry [peerA, peerB], Select [peerA, peerB], Arm] ?r1) =
      effects ?r1 @ fx \<and> Dispatched 10 \<notin> set fx"
    by blast
  from a b s2 show ?thesis by blast
qed

text \<open>
  Claim C7. For every request asked when no connected peer has the capability it needs,
  the Retrieval ends at once with \<open>NoEligiblePeer\<close>, returned to the asking caller,
  and its log of effects is empty: no dispatch was made and no timer armed. At the
  manager the error is in the caller's outbox after the ask itself and no Retrieval
  stays live.
\<close>

theorem no_capable_peer_fails_at_once:
  "list_all (\<lambda>p. \<not> capable req p) ps \<longrightarrow>
     ask_new E req c ps =
       (newRetrieval E req c)\<lparr>rstate := FailedTerminal NoEligiblePeer,
          delivered := [(c, Inl NoEligiblePeer)]\<rparr> \<and>
     effects (ask_new E req c ps) = [] \<and>
     (live m (key_of req) = None \<longrightarrow>
        live (mstep E (Ask req c ps) m) (key_of req) = None \<and>
        outbox (mstep E (Ask req c ps) m) = outbox m @ [(c, key_of req, Inl NoEligiblePeer)])"
proof
  assume h: "list_all (\<lambda>p. \<not> capable req p) ps"
  have n: "select (canSend E (newRetrieval E req c)) ps = None"
    using h by (simp add: select_None canSend_def newRetrieval_def list_all_iff)
  have s: "\<not> could_still_serve (newRetrieval E req c) ps"
    using h by (simp add: could_still_serve_def newRetrieval_def list_all_iff list_ex_iff)
  have eq: "ask_new E req c ps =
       (newRetrieval E req c)\<lparr>rstate := FailedTerminal NoEligiblePeer,
          delivered := [(c, Inl NoEligiblePeer)]\<rparr>"
    unfolding ask_new_def using n s
    by (simp add: newRetrieval_def fail_terminal_def release_def)
  have t: "terminal (ask_new E req c ps)" "delivered (ask_new E req c ps) = [(c, Inl NoEligiblePeer)]"
    "effects (ask_new E req c ps) = []"
    by (simp_all add: eq terminal_def newRetrieval_def)
  show "ask_new E req c ps =
       (newRetrieval E req c)\<lparr>rstate := FailedTerminal NoEligiblePeer,
          delivered := [(c, Inl NoEligiblePeer)]\<rparr> \<and>
     effects (ask_new E req c ps) = [] \<and>
     (live m (key_of req) = None \<longrightarrow>
        live (mstep E (Ask req c ps) m) (key_of req) = None \<and>
        outbox (mstep E (Ask req c ps) m) = outbox m @ [(c, key_of req, Inl NoEligiblePeer)])"
    using eq t by (simp add: settle_def)
qed

text \<open>A code request when the only connected peer serves receipts.\<close>

theorem no_capable_peer_fails_at_once_witness:
  "ask_new prefix_env code_request 1 [peerB\<lparr>capabilities := [''receipts'']\<rparr>] =
     (newRetrieval prefix_env code_request 1)\<lparr>rstate := FailedTerminal NoEligiblePeer,
        delivered := [(1, Inl NoEligiblePeer)]\<rparr> \<and>
   effects (ask_new prefix_env code_request 1 [peerB\<lparr>capabilities := [''receipts'']\<rparr>]) = [] \<and>
   outbox (mstep prefix_env (Ask code_request 1 [peerB\<lparr>capabilities := [''receipts'']\<rparr>])
      empty_manager) = [(1, key_of code_request, Inl NoEligiblePeer)]"
proof -
  have h: "list_all (\<lambda>p. \<not> capable code_request p) [peerB\<lparr>capabilities := [''receipts'']\<rparr>]"
    by (simp add: capable_def code_request_def peerB_def)
  have l: "live empty_manager (key_of code_request) = None"
    by (simp add: empty_manager_def)
  have o: "outbox empty_manager = []"
    by (simp add: empty_manager_def)
  note t = no_capable_peer_fails_at_once [where req = code_request and E = prefix_env
        and c = 1 and m = empty_manager and ps = "[peerB\<lparr>capabilities := [''receipts'']\<rparr>]"]
  have a: "ask_new prefix_env code_request 1 [peerB\<lparr>capabilities := [''receipts'']\<rparr>] =
     (newRetrieval prefix_env code_request 1)\<lparr>rstate := FailedTerminal NoEligiblePeer,
        delivered := [(1, Inl NoEligiblePeer)]\<rparr>"
    using t h by blast
  have b: "effects (ask_new prefix_env code_request 1 [peerB\<lparr>capabilities := [''receipts'']\<rparr>]) = []"
    using t h by blast
  have c: "outbox (mstep prefix_env (Ask code_request 1 [peerB\<lparr>capabilities := [''receipts'']\<rparr>])
      empty_manager) = outbox empty_manager @ [(1, key_of code_request, Inl NoEligiblePeer)]"
    using t h l by blast
  have c': "outbox (mstep prefix_env (Ask code_request 1 [peerB\<lparr>capabilities := [''receipts'']\<rparr>])
      empty_manager) = [(1, key_of code_request, Inl NoEligiblePeer)]"
    using c by (simp only: o append_Nil)
  from a b c' show ?thesis by blast
qed

subsection \<open>Only verified values reach callers\<close>

lemma request_step: "request (step E e r) = request r"
  by (cases e; cases "rstate r")
     (auto simp: fail_terminal_def fail_retryable_def release_def terminal_def
        split: option.splits)

lemma request_run: "request (run E es r) = request r"
  by (induction es arbitrary: r) (simp_all add: request_step)

lemma check_reply_Some:
  "check_reply E d req = Some v \<Longrightarrow> \<exists>bs. d = Data bs \<and> Verify E bs (req_root req) = Some v"
  by (cases d) (simp_all add: check_reply_def)

lemma verified_inv_mono: "verified_inv E R r \<Longrightarrow> R \<subseteq> R' \<Longrightarrow> verified_inv E R' r"
  unfolding verified_inv_def by blast

lemma verified_inv_step:
  assumes "verified_inv E R r"
  shows "verified_inv E (insert e R) (step E e r)"
proof (cases e)
  case (Select ps)
  with assms show ?thesis
    by (cases "rstate r")
       (auto simp: verified_inv_def terminal_def fail_terminal_def release_def
          split: option.splits)
next
  case Arm
  with assms show ?thesis
    by (cases "rstate r") (auto simp: verified_inv_def terminal_def)
next
  case (Reply d)
  with assms show ?thesis
    by (cases "rstate r") (auto simp: verified_inv_def terminal_def)
next
  case Timeout
  with assms show ?thesis
    by (cases "rstate r") (auto simp: verified_inv_def terminal_def fail_retryable_def)
next
  case Validate
  show ?thesis
  proof (cases "rstate r")
    case (Validating p d)
    show ?thesis
    proof (cases "check_reply E d (request r)")
      case None
      with assms Validate Validating show ?thesis
        by (auto simp: verified_inv_def terminal_def fail_retryable_def)
    next
      case (Some v)
      then obtain bs where "d = Data bs" "Verify E bs (req_root (request r)) = Some v"
        using check_reply_Some by blast
      with assms Validate Validating Some show ?thesis
        by (auto simp: verified_inv_def terminal_def release_def)
    qed
  qed (use assms Validate in \<open>auto simp: verified_inv_def terminal_def\<close>)
next
  case (Retry ps)
  with assms show ?thesis
    by (cases "rstate r")
       (auto simp: verified_inv_def terminal_def fail_terminal_def release_def)
next
  case Cancel
  with assms show ?thesis
    by (cases "rstate r")
       (auto simp: verified_inv_def terminal_def fail_terminal_def release_def)
next
  case (Attach c)
  with assms show ?thesis
    by (cases "rstate r") (auto simp: verified_inv_def terminal_def)
qed

lemma verified_inv_run:
  "verified_inv E R r \<Longrightarrow> verified_inv E (R \<union> set es) (run E es r)"
proof (induction es arbitrary: r R)
  case Nil
  then show ?case by simp
next
  case (Cons e es)
  have "verified_inv E (insert e R) (step E e r)"
    using Cons.prems by (rule verified_inv_step)
  then have "verified_inv E (insert e R \<union> set es) (run E es (step E e r))"
    by (rule Cons.IH)
  then show ?case by simp
qed

lemma verified_inv_new: "verified_inv E {} (newRetrieval E req c)"
  by (simp add: verified_inv_def newRetrieval_def terminal_def)

lemma delivered_values:
  assumes "verified_inv E R r" and "(c, Inr v) \<in> set (delivered r)"
  shows "rstate r = Done v"
proof (cases "rstate r")
  case (Done v')
  with assms show ?thesis by (auto simp: verified_inv_def)
next
  case (FailedTerminal e)
  with assms show ?thesis by (auto simp: verified_inv_def)
qed (use assms in \<open>auto simp: verified_inv_def terminal_def\<close>)

text \<open>
  Claim C1. For every Retrieval, after any events: every value released to a caller,
  and the value of a Retrieval that is done, is what a payload received in a reply
  verifies to under the trusted root of the Request. A reply that fails verification
  puts the Retrieval in Failed-retryable with the peer excluded and nothing released;
  the retry decision then leads back to Pending or to the terminal error
  \<open>RetriesExhausted\<close>, and releases no value.
\<close>

theorem unverified_reply_never_delivered:
  assumes "r = run E es (newRetrieval E req c)"
  shows "(\<forall>c' v. (c', Inr v) \<in> set (delivered r) \<longrightarrow>
            (\<exists>bs. Reply (Data bs) \<in> set es \<and> Verify E bs (req_root req) = Some v)) \<and>
         (\<forall>v. rstate r = Done v \<longrightarrow>
            (\<exists>bs. Reply (Data bs) \<in> set es \<and> Verify E bs (req_root req) = Some v)) \<and>
         (\<forall>p d. rstate r = Validating p d \<and> check_reply E d req = None \<longrightarrow>
            rstate (step E Validate r) = FailedRetryable InvalidProof \<and>
            delivered (step E Validate r) = [] \<and>
            p \<in> set (excluded (step E Validate r)) \<and>
            (\<forall>ps. (rstate (step E (Retry ps) (step E Validate r)) = Pending \<or>
                   rstate (step E (Retry ps) (step E Validate r)) = FailedTerminal RetriesExhausted) \<and>
                  (\<forall>c' v. (c', Inr v) \<notin> set (delivered (step E (Retry ps) (step E Validate r))))))"
proof -
  have inv: "verified_inv E (set es) r"
    using verified_inv_run [OF verified_inv_new, of E es req c] assms by simp
  have req: "request r = req"
    using assms by (simp add: request_run newRetrieval_def)
  have dn: "\<forall>v. rstate r = Done v \<longrightarrow>
      (\<exists>bs. Reply (Data bs) \<in> set es \<and> Verify E bs (req_root req) = Some v)"
    using inv req by (auto simp: verified_inv_def)
  have deliv: "\<forall>c' v. (c', Inr v) \<in> set (delivered r) \<longrightarrow>
      (\<exists>bs. Reply (Data bs) \<in> set es \<and> Verify E bs (req_root req) = Some v)"
    using delivered_values [OF inv] dn by blast
  have fail: "\<forall>p d. rstate r = Validating p d \<and> check_reply E d req = None \<longrightarrow>
      rstate (step E Validate r) = FailedRetryable InvalidProof \<and>
      delivered (step E Validate r) = [] \<and>
      p \<in> set (excluded (step E Validate r)) \<and>
      (\<forall>ps. (rstate (step E (Retry ps) (step E Validate r)) = Pending \<or>
             rstate (step E (Retry ps) (step E Validate r)) = FailedTerminal RetriesExhausted) \<and>
            (\<forall>c' v. (c', Inr v) \<notin> set (delivered (step E (Retry ps) (step E Validate r)))))"
  proof (intro allI impI)
    fix p d
    assume h: "rstate r = Validating p d \<and> check_reply E d req = None"
    have nt: "delivered r = []"
      using inv h by (simp add: verified_inv_def terminal_def)
    show "rstate (step E Validate r) = FailedRetryable InvalidProof \<and>
      delivered (step E Validate r) = [] \<and>
      p \<in> set (excluded (step E Validate r)) \<and>
      (\<forall>ps. (rstate (step E (Retry ps) (step E Validate r)) = Pending \<or>
             rstate (step E (Retry ps) (step E Validate r)) = FailedTerminal RetriesExhausted) \<and>
            (\<forall>c' v. (c', Inr v) \<notin> set (delivered (step E (Retry ps) (step E Validate r)))))"
      using h req nt
      by (auto simp: fail_retryable_def fail_terminal_def release_def)
  qed
  from deliv dn fail show ?thesis by blast
qed

text \<open>
  A payload that does not start with the root fails verification and nothing is
  released; the second peer's payload verifies and both callers receive its value.
\<close>

theorem unverified_reply_never_delivered_witness:
  "rstate (step prefix_env Validate
      (run prefix_env [Select [peerA, peerB], Arm, Reply (Data [9, 9])]
         (newRetrieval prefix_env code_request 1))) = FailedRetryable InvalidProof \<and>
   delivered (step prefix_env Validate
      (run prefix_env [Select [peerA, peerB], Arm, Reply (Data [9, 9])]
         (newRetrieval prefix_env code_request 1))) = [] \<and>
   delivered (run prefix_env [Select [peerA, peerB], Arm, Reply (Data [9, 9]), Validate,
        Retry [peerA, peerB], Select [peerA, peerB], Arm, Attach 2, Reply (Data [7, 4, 2]), Validate]
      (newRetrieval prefix_env code_request 1)) = [(1, Inr [4, 2]), (2, Inr [4, 2])] \<and>
   (\<exists>bs. Reply (Data bs) \<in> set [Select [peerA, peerB], Arm, Reply (Data [9, 9]), Validate,
        Retry [peerA, peerB], Select [peerA, peerB], Arm, Attach 2, Reply (Data [7, 4, 2]), Validate] \<and>
      Verify prefix_env bs (req_root code_request) = Some [4, 2])"
proof -
  let ?es1 = "[Select [peerA, peerB], Arm, Reply (Data [9, 9])]"
  let ?es2 = "[Select [peerA, peerB], Arm, Reply (Data [9, 9]), Validate,
        Retry [peerA, peerB], Select [peerA, peerB], Arm, Attach 2, Reply (Data [7, 4, 2]), Validate]"
  let ?r1 = "run prefix_env ?es1 (newRetrieval prefix_env code_request 1)"
  let ?r2 = "run prefix_env ?es2 (newRetrieval prefix_env code_request 1)"
  have s1: "rstate ?r1 = Validating 10 (Data [9, 9])"
    by code_simp
  have c1: "check_reply prefix_env (Data [9, 9]) code_request = None"
    by code_simp
  have d2: "delivered ?r2 = [(1, Inr [4, 2]), (2, Inr [4, 2])]"
    by code_simp
  from unverified_reply_never_delivered [where r = ?r1 and E = prefix_env and es = ?es1
      and req = code_request and c = 1, OF refl] s1 c1
  have a: "rstate (step prefix_env Validate ?r1) = FailedRetryable InvalidProof \<and>
      delivered (step prefix_env Validate ?r1) = []"
    by blast
  have m: "(1, Inr [4, 2]) \<in> set (delivered ?r2)"
    unfolding d2 by simp
  from unverified_reply_never_delivered [where r = ?r2 and E = prefix_env and es = ?es2
      and req = code_request and c = 1, OF refl] m
  have b: "\<exists>bs. Reply (Data bs) \<in> set ?es2 \<and> Verify prefix_env bs (req_root code_request) = Some [4, 2]"
    by blast
  from a d2 b show ?thesis by blast
qed

subsection \<open>Deduplication\<close>

lemma waiters_step:
  "waiters (step E e r) =
     (case e of Attach c \<Rightarrow> if terminal r then waiters r else waiters r @ [c] | _ \<Rightarrow> waiters r)"
  by (cases e; cases "rstate r")
     (auto simp: fail_terminal_def fail_retryable_def release_def terminal_def
        split: option.splits)

lemma terminal_step_uniform:
  assumes "\<not> terminal r" and "terminal (step E e r)"
  shows "\<exists>out. delivered (step E e r) = map (\<lambda>c. (c, out)) (waiters r)"
  using assms
  by (cases e; cases "rstate r")
     (auto simp: fail_terminal_def fail_retryable_def release_def terminal_def
        split: option.splits if_splits)

lemma live_settle:
  "live (settle k r m) k' = (if k' = k then (if terminal r then None else Some r) else live m k')"
  by (simp add: settle_def)

lemma created_settle: "created (settle k r m) = created m"
  by (simp add: settle_def)

lemma outbox_settle:
  "outbox (settle k r m) =
     (if terminal r then outbox m @ map (\<lambda>(c, out). (c, k, out)) (delivered r) else outbox m)"
  by (simp add: settle_def)

lemma live_ok_settle: "live_ok m \<Longrightarrow> live_ok (settle k r m)"
  by (simp add: live_ok_def live_settle)

lemma live_ok_mstep: "live_ok m \<Longrightarrow> live_ok (mstep E e m)"
proof (cases e)
  case (Ask req c ps)
  assume "live_ok m"
  then have "live_ok (m\<lparr>created := created m @ [key_of req]\<rparr>)"
    by (simp add: live_ok_def)
  with \<open>live_ok m\<close> Ask show ?thesis
    by (auto simp: live_ok_settle split: option.splits)
next
  case (Ev k e')
  assume "live_ok m"
  with Ev show ?thesis
    by (auto simp: live_ok_settle split: option.splits)
qed

lemma live_ok_mrun: "live_ok m \<Longrightarrow> live_ok (mrun E es m)"
  by (induction es arbitrary: m) (simp_all add: live_ok_mstep)

lemma live_ok_empty: "live_ok empty_manager"
  by (simp add: live_ok_def empty_manager_def)

lemma askers_Ev: "askers k (Ev k' e # es) =
    (case e of Attach c \<Rightarrow> if k' = k then c # askers k es else askers k es | _ \<Rightarrow> askers k es)"
  by (cases e) simp_all

lemma mstep_keeps_live:
  assumes "live m k = Some r" and "live (mstep E e m) k = Some r1"
  shows "waiters r1 = waiters r @ askers k [e] \<and>
         filter (\<lambda>x. x = k) (created (mstep E e m)) = filter (\<lambda>x. x = k) (created m)"
proof (cases e)
  case (Ask req c ps)
  show ?thesis
  proof (cases "key_of req = k")
    case True
    with assms Ask have t: "\<not> terminal (step E (Attach c) r)" and r1: "r1 = step E (Attach c) r"
      by (auto simp: live_settle split: if_splits)
    then have "\<not> terminal r" by auto
    with r1 have "waiters r1 = waiters r @ [c]" by simp
    with True assms Ask show ?thesis by (simp add: created_settle)
  next
    case False
    with assms Ask show ?thesis
      by (auto simp: live_settle created_settle split: option.splits)
  qed
next
  case (Ev k' e')
  show ?thesis
  proof (cases "k' = k")
    case True
    with assms Ev have t: "\<not> terminal (step E e' r)" and r1: "r1 = step E e' r"
      by (auto simp: live_settle split: if_splits)
    have nt: "\<not> terminal r"
    proof
      assume "terminal r"
      then have "terminal (step E e' r)"
        by (cases e'; cases "rstate r") (auto simp: terminal_def)
      with t show False by simp
    qed
    have "waiters r1 = waiters r @ askers k [Ev k e']"
      using r1 nt by (cases e') (simp_all add: waiters_step del: step.simps)
    with True assms Ev show ?thesis by (simp add: created_settle)
  next
    case False
    with assms Ev show ?thesis
      by (cases e') (auto simp: live_settle created_settle split: option.splits)
  qed
qed

lemma askers_append_one: "askers k (e # es) = askers k [e] @ askers k es"
proof (cases e)
  case (Ask req c ps)
  then show ?thesis by simp
next
  case (Ev k' e')
  then show ?thesis by (cases e') simp_all
qed

lemma stays_live_attached:
  "stays_live E k es m \<Longrightarrow> live m k = Some r \<Longrightarrow>
     \<exists>r'. live (mrun E es m) k = Some r' \<and> waiters r' = waiters r @ askers k es \<and>
       filter (\<lambda>x. x = k) (created (mrun E es m)) = filter (\<lambda>x. x = k) (created m)"
proof (induction es arbitrary: m r)
  case Nil
  then show ?case by simp
next
  case (Cons e es)
  from Cons.prems have sl: "stays_live E k es (mstep E e m)" by simp
  then have "live (mstep E e m) k \<noteq> None" by (cases es) simp_all
  then obtain r1 where r1: "live (mstep E e m) k = Some r1" by blast
  from mstep_keeps_live [OF Cons.prems(2) r1]
  have w: "waiters r1 = waiters r @ askers k [e]"
    and c: "filter (\<lambda>x. x = k) (created (mstep E e m)) = filter (\<lambda>x. x = k) (created m)"
    by simp_all
  from Cons.IH [OF sl r1] obtain r' where
    a: "live (mrun E es (mstep E e m)) k = Some r'"
    and b: "waiters r' = waiters r1 @ askers k es"
    and d: "filter (\<lambda>x. x = k) (created (mrun E es (mstep E e m))) =
            filter (\<lambda>x. x = k) (created (mstep E e m))"
    by blast
  have "waiters r' = waiters r @ askers k (e # es)"
    using b w askers_append_one [of k e es] by simp
  with a c d show ?case by simp
qed

text \<open>
  Claim C2. Take any reachable manager with no live Retrieval for a key, an ask for
  that key, and any interleaving of further manager events during which the Retrieval
  stays live (asks with the same type, payload and root by other callers, asks for other
  keys, events of any Retrieval). Then exactly one Retrieval of the key was created over
  the whole sequence, every caller that asked for the key is waiting on it, and whatever
  event ends it returns one and the same outcome, value or error, to each of them. Each
  ask and each event is one atomic step of the manager.
\<close>

theorem concurrent_asks_share_one_retrieval:
  assumes "m0 = mrun E hist empty_manager"
    and "key_of req = k"
    and "live m0 k = None"
    and "stays_live E k es (mstep E (Ask req c0 ps0) m0)"
    and "m' = mrun E (Ask req c0 ps0 # es) m0"
  shows "filter (\<lambda>x. x = k) (created m') = filter (\<lambda>x. x = k) (created m0) @ [k] \<and>
         (\<exists>r'. live m' k = Some r' \<and> waiters r' = c0 # askers k es) \<and>
         (\<forall>e. live (mstep E (Ev k e) m') k = None \<longrightarrow>
            (\<exists>out. outbox (mstep E (Ev k e) m') =
               outbox m' @ map (\<lambda>c. (c, k, out)) (c0 # askers k es)))"
proof -
  let ?m1 = "mstep E (Ask req c0 ps0) m0"
  have ok0: "live_ok m0"
    using assms(1) live_ok_mrun [OF live_ok_empty] by simp
  have ok': "live_ok m'"
    unfolding assms(5) using ok0 by (rule live_ok_mrun)
  from assms(4) have "live ?m1 k \<noteq> None" by (cases es) simp_all
  then obtain r1 where r1: "live ?m1 k = Some r1" by blast
  have m1: "?m1 = settle k (ask_new E req c0 ps0) (m0\<lparr>created := created m0 @ [k]\<rparr>)"
    using assms(2,3) by simp
  have nt1: "\<not> terminal (ask_new E req c0 ps0)" and r1eq: "r1 = ask_new E req c0 ps0"
    using r1 unfolding m1 by (auto simp: live_settle split: if_splits)
  have w1: "waiters r1 = [c0]"
    unfolding r1eq ask_new_def by (simp add: waiters_step newRetrieval_def del: step.simps)
  have c1: "created ?m1 = created m0 @ [k]"
    unfolding m1 by (simp add: created_settle)
  from stays_live_attached [OF assms(4) r1] obtain r' where
    a: "live (mrun E es ?m1) k = Some r'"
    and b: "waiters r' = waiters r1 @ askers k es"
    and d: "filter (\<lambda>x. x = k) (created (mrun E es ?m1)) = filter (\<lambda>x. x = k) (created ?m1)"
    by blast
  have m': "m' = mrun E es ?m1" using assms(5) by simp
  have p1: "filter (\<lambda>x. x = k) (created m') = filter (\<lambda>x. x = k) (created m0) @ [k]"
    using d c1 m' by simp
  have p2: "live m' k = Some r' \<and> waiters r' = c0 # askers k es"
    using a b w1 m' by simp
  have ntr: "\<not> terminal r'"
    using ok' p2 unfolding live_ok_def by blast
  have p3: "\<forall>e. live (mstep E (Ev k e) m') k = None \<longrightarrow>
      (\<exists>out. outbox (mstep E (Ev k e) m') = outbox m' @ map (\<lambda>c. (c, k, out)) (c0 # askers k es))"
  proof (intro allI impI)
    fix e
    assume "live (mstep E (Ev k e) m') k = None"
    then have t: "terminal (step E e r')"
      using p2 by (auto simp: live_settle split: if_splits)
    from terminal_step_uniform [OF ntr t] obtain out where
      o: "delivered (step E e r') = map (\<lambda>c. (c, out)) (waiters r')" by blast
    have "outbox (mstep E (Ev k e) m') = outbox m' @ map (\<lambda>c. (c, k, out)) (c0 # askers k es)"
      using p2 t o by (simp add: outbox_settle)
    then show "\<exists>out. outbox (mstep E (Ev k e) m') =
        outbox m' @ map (\<lambda>c. (c, k, out)) (c0 # askers k es)" by blast
  qed
  from p1 p2 p3 show ?thesis by blast
qed

text \<open>
  Three callers ask for the same code, the second under another correlation id, while
  the timer of the first attempt is armed in between; a cancellation ends the Retrieval.
\<close>

theorem concurrent_asks_share_one_retrieval_witness:
  "filter (\<lambda>x. x = key_of code_request)
     (created (mrun prefix_env
        [Ask code_request 1 [peerA, peerB], Ask (code_request\<lparr>req_id := 2\<rparr>) 2 [],
         Ev (key_of code_request) Arm, Ask code_request 3 [peerA]] empty_manager)) =
     [key_of code_request] \<and>
   (\<exists>r'. live (mrun prefix_env
        [Ask code_request 1 [peerA, peerB], Ask (code_request\<lparr>req_id := 2\<rparr>) 2 [],
         Ev (key_of code_request) Arm, Ask code_request 3 [peerA]] empty_manager)
        (key_of code_request) = Some r' \<and> waiters r' = [1, 2, 3]) \<and>
   (\<exists>out. outbox (mstep prefix_env (Ev (key_of code_request) Cancel)
       (mrun prefix_env
        [Ask code_request 1 [peerA, peerB], Ask (code_request\<lparr>req_id := 2\<rparr>) 2 [],
         Ev (key_of code_request) Arm, Ask code_request 3 [peerA]] empty_manager)) =
      map (\<lambda>c. (c, key_of code_request, out)) [1, 2, 3])"
proof -
  let ?k = "key_of code_request"
  let ?es = "[Ask (code_request\<lparr>req_id := 2\<rparr>) 2 [], Ev ?k Arm, Ask code_request 3 [peerA]]"
  let ?m' = "mrun prefix_env (Ask code_request 1 [peerA, peerB] # ?es) empty_manager"
  have h1: "empty_manager = mrun prefix_env [] empty_manager" by simp
  have h3: "live empty_manager ?k = None" by (simp add: empty_manager_def)
  have h4: "stays_live prefix_env ?k ?es (mstep prefix_env (Ask code_request 1 [peerA, peerB]) empty_manager)"
    by code_simp
  have as: "askers ?k ?es = [2, 3]" by code_simp
  have c0: "filter (\<lambda>x. x = ?k) (created empty_manager) = []" by (simp add: empty_manager_def)
  have ob: "outbox ?m' = []" by code_simp
  have lv: "live (mstep prefix_env (Ev ?k Cancel) ?m') ?k = None" by code_simp
  note t = concurrent_asks_share_one_retrieval [OF h1 refl h3 h4 refl]
  have a: "filter (\<lambda>x. x = ?k) (created ?m') = [?k]"
    using t c0 by simp
  have b: "\<exists>r'. live ?m' ?k = Some r' \<and> waiters r' = [1, 2, 3]"
    using t as by simp
  have "\<exists>out. outbox (mstep prefix_env (Ev ?k Cancel) ?m') =
      outbox ?m' @ map (\<lambda>c. (c, ?k, out)) (1 # askers ?k ?es)"
    using t lv by blast
  then have c: "\<exists>out. outbox (mstep prefix_env (Ev ?k Cancel) ?m') =
      map (\<lambda>c. (c, ?k, out)) [1, 2, 3]"
    by (simp only: ob as append_Nil)
  from a b c show ?thesis by blast
qed


end
